theory Spec2Isabelle
  imports Complex_Main "HOL-Library.Multiset" "HOL-Library.Sublist"
begin

section \<open>Data model of the migration queue\<close>

text \<open>
  The repository holds three revisions of the queue module. They share the catalog
  \<open>MIGRATION_ORDER\<close>; they differ in how the job names its components:
  \<^item> the components revision (\<open>src/unnamed/part_001\<close>): the job data carries
    \<open>job.components\<close>, a requested array that the worker sorts in place;
  \<^item> the ignoredItems revision (\<open>src/unnamed/part_000\<close>): the job data carries
    \<open>ignoredItems\<close>, and the worker filters the catalog;
  \<^item> the revision of \<open>src/src/queue.ts\<close>, which sorts \<open>job.components\<close> with the same
    expression and whose \<open>validateSnapshot\<close> has no null guards.
  The workers of the first two and the validators of all three are embedded below, each
  under its own name.

  A thrown JavaScript value is an \<open>Error\<close> with its message, a \<open>TypeError\<close> with its
  message, or some value that is not an instance of \<open>Error\<close>.
\<close>

datatype js_error = Error string | TypeError string | NonError

text \<open>\<open>error instanceof Error ? error.message : 'An unknown error occurred'\<close>\<close>

fun errorMessage :: "js_error \<Rightarrow> string" where
  "errorMessage (Error m) = m"
| "errorMessage (TypeError m) = m"
| "errorMessage NonError = ''An unknown error occurred''"

record ZendeskCredentials =
  token :: string
  email :: string

text \<open>
  \<open>InstanceInfo\<close>; the credentials are a \<open>ZendeskCredentials\<close> object in the components
  revision and a string dictionary in the ignoredItems revision, and no worker reads them.
\<close>

record 'cred InstanceInfo =
  inst_id :: string
  inst_name :: string
  subdomain :: string
  inst_tags :: "string list"
  credentials :: 'cred

text \<open>\<open>ComponentBreakdown\<close>: \<open>count\<close> is a string in the source, \<open>size\<close> a byte count.\<close>

record ComponentBreakdown =
  bd_count :: string
  bd_size :: nat
  bd_file :: string

text \<open>
  \<open>Snapshot\<close>. The breakdown is an object used as a dictionary from component name to
  \<open>ComponentBreakdown\<close>; \<open>validateSnapshot\<close> tests it for presence, so it is optional here.
  A lookup \<open>snapshot.breakdown[comp]\<close> goes through \<open>getProperty\<close> below.
\<close>

record Snapshot =
  snap_id :: string
  snap_name :: string
  snap_tags :: "string list"
  parentId :: string
  locked :: bool
  createdAt :: string
  breakdown :: "(string \<rightharpoonup> ComponentBreakdown) option"

datatype SourceType = snapshot | live

text \<open>
  Reading \<open>obj[key]\<close> on a plain object (an object literal, or one parsed from JSON, with
  \<open>Object.prototype\<close> as the engine ships it): an own key gives its value, a name that
  every object inherits from \<open>Object.prototype\<close> gives the inherited function (or, for
  \<open>__proto__\<close>, the prototype itself), and any other key gives \<open>undefined\<close>. The own and
  the inherited values are objects or functions, so they are truthy.
\<close>

datatype 'a property = Own 'a | Inherited | Undefined

definition objectPrototypeKeys :: "string list" where
  "objectPrototypeKeys =
    [''constructor'', ''__defineGetter__'', ''__defineSetter__'', ''hasOwnProperty'',
     ''__lookupGetter__'', ''__lookupSetter__'', ''isPrototypeOf'', ''propertyIsEnumerable'',
     ''toString'', ''valueOf'', ''__proto__'', ''toLocaleString'']"

definition getProperty :: "(string \<rightharpoonup> 'a) \<Rightarrow> string \<Rightarrow> 'a property" where
  "getProperty obj key =
    (case obj key of
       Some v \<Rightarrow> Own v
     | None \<Rightarrow> if key \<in> set objectPrototypeKeys then Inherited else Undefined)"

fun truthy :: "'a property \<Rightarrow> bool" where
  "truthy (Own v) = True"
| "truthy Inherited = True"
| "truthy Undefined = False"

datatype IdValue = IdString string | IdNumber int

text \<open>
  \<open>IdMapping\<close>: ids are strings or numbers; \<open>type\<close> is the entity type; the optional
  metadata is a list of key and value pairs.
\<close>

record IdMapping =
  oldId :: IdValue
  newId :: IdValue
  entityType :: string
  metadata :: "(string \<times> string) list option"

section \<open>Component catalog and ordering\<close>

definition MIGRATION_ORDER :: "string list" where
  "MIGRATION_ORDER =
    [''custom_statuses'', ''groups'', ''custom_roles'', ''ticket_fields'', ''ticket_forms'',
     ''brands'', ''dynamic_content'', ''macros'', ''triggers'', ''trigger_categories'',
     ''views'', ''webhooks'', ''apps'', ''skills'']"

text \<open>\<open>Array.prototype.indexOf\<close>: the first position of the element, or \<open>-1\<close>.\<close>

fun indexOf :: "'a list \<Rightarrow> 'a \<Rightarrow> int" where
  "indexOf [] x = - 1"
| "indexOf (y # ys) x =
     (if x = y then 0
      else (let i = indexOf ys x in if i < 0 then - 1 else i + 1))"

text \<open>
  \<open>migrationJob.components.sort((a, b) => MIGRATION_ORDER.indexOf(a) - MIGRATION_ORDER.indexOf(b))\<close>.
  The comparator orders by an integer key, and \<open>Array.prototype.sort\<close> is stable
  (ECMAScript 2019), so the result is the stable sort by that key.
\<close>

definition sortedComponents :: "string list \<Rightarrow> string list" where
  "sortedComponents components = sort_key (indexOf MIGRATION_ORDER) components"

text \<open>
  The ignoredItems revision:
  \<open>MIGRATION_ORDER.filter(comp => !ignoredItems.includes(comp))\<close>.
\<close>

definition componentsToMigrate :: "string list \<Rightarrow> string list" where
  "componentsToMigrate ignoredItems = filter (\<lambda>comp. comp \<notin> set ignoredItems) MIGRATION_ORDER"

section \<open>Snapshot validation\<close>

text \<open>\<open>Array.prototype.join\<close> on an array of strings.\<close>

fun join :: "string \<Rightarrow> string list \<Rightarrow> string" where
  "join sep [] = []"
| "join sep [x] = x"
| "join sep (x # y # ys) = x @ sep @ join sep (y # ys)"

text \<open>
  \<open>validateSnapshot\<close> of the components and ignoredItems revisions (the two are identical):
  a null snapshot, a missing breakdown, missing components and a locked snapshot are
  checked in this order, and the first check that fires throws. A component is missing
  when \<open>!snapshot.breakdown[comp]\<close>, that is, when the lookup is not truthy.
\<close>

definition validateSnapshot :: "Snapshot option \<Rightarrow> string list \<Rightarrow> js_error + unit" where
  "validateSnapshot snap components =
    (case snap of
       None \<Rightarrow> Inl (Error ''Snapshot not found'')
     | Some s \<Rightarrow>
        (case breakdown s of
           None \<Rightarrow> Inl (Error ''Snapshot breakdown is missing'')
         | Some b \<Rightarrow>
            (let missingComponents =
                   filter (\<lambda>comp. \<not> truthy (getProperty b comp)) components in
             if length missingComponents > 0
             then Inl (Error (''Snapshot missing required components: ''
                              @ join '', '' missingComponents))
             else if locked s
             then Inl (Error ''Cannot use locked snapshot for migration'')
             else Inr ())))"

text \<open>
  \<open>validateSnapshot\<close> of \<open>src/src/queue.ts\<close>: no null guards. Reading a property of an
  undefined breakdown throws a \<open>TypeError\<close> (the wording is the engine's); the callback of
  \<open>filter\<close> runs once per component, so an empty component list reads nothing.
\<close>

definition validateSnapshot_unguarded :: "Snapshot \<Rightarrow> string list \<Rightarrow> js_error + unit" where
  "validateSnapshot_unguarded s components =
    (case breakdown s of
       None \<Rightarrow>
        (case components of
           c # _ \<Rightarrow> Inl (TypeError (''Cannot read properties of undefined (reading ''
                                   @ [CHR 0x27] @ c @ [CHR 0x27] @ '')''))
         | [] \<Rightarrow>
            if locked s then Inl (Error ''Cannot use locked snapshot for migration'')
            else Inr ())
     | Some b \<Rightarrow>
        (let missingComponents =
               filter (\<lambda>comp. \<not> truthy (getProperty b comp)) components in
         if length missingComponents > 0
         then Inl (Error (''Snapshot missing required components: ''
                          @ join '', '' missingComponents))
         else if locked s
         then Inl (Error ''Cannot use locked snapshot for migration'')
         else Inr ()))"

section \<open>Collaborators\<close>

text \<open>
  What a worker tells the queue: \<open>job.log(line)\<close> and \<open>job.updateProgress(percent)\<close>, in the
  order of the calls. The percentage is a JavaScript number computed as
  \<open>(currentStep / totalSteps) * 100\<close>; it is kept here as the exact rational.
\<close>

datatype event = Log string | UpdateProgress rat

datatype SourceData = MockData string "string option" | Null

text \<open>
  The snapshot store and the two fetch functions are placeholders in the source (each is
  marked as to be replaced by real input and output), so the workers take them as
  parameters. The fetch functions are awaited inside the worker's inner \<open>try\<close> block: a
  rejection is a thrown value. The file path handed to \<open>fetchSnapshotData\<close> is
  \<open>componentInfo.file\<close>, which is \<open>undefined\<close> (\<open>None\<close>) when the component info is an
  inherited value.
\<close>

record 'cred Adapters =
  fetchSnapshotFromConvex :: "string \<Rightarrow> Snapshot option"
  fetchSnapshotData :: "string \<Rightarrow> string option \<Rightarrow> js_error + SourceData"
  fetchLiveData :: "string \<Rightarrow> 'cred InstanceInfo \<Rightarrow> js_error + SourceData"

text \<open>The placeholders as the source writes them.\<close>

definition mockBreakdown :: "string \<rightharpoonup> ComponentBreakdown" where
  "mockBreakdown =
     [''ticket_fields'' \<mapsto>
        \<lparr>bd_count = ''10'', bd_size = 4500, bd_file = ''/1/1/ticket_fields.json''\<rparr>,
      ''ticket_forms'' \<mapsto>
        \<lparr>bd_count = ''1'', bd_size = 2500, bd_file = ''/1/1/ticket_forms.json''\<rparr>]"

definition mockSnapshot1 :: Snapshot where
  "mockSnapshot1 =
    \<lparr>snap_id = ''1'', snap_name = ''Snapshot 1'',
     snap_tags = [''dev'', ''stable'', ''backup''], parentId = ''1'', locked = False,
     createdAt = ''2024-01-01T00:00:00.000Z'',
     breakdown = Some mockBreakdown\<rparr>"

text \<open>
  \<open>mockSnapshots[snapshotId] || null\<close>: the table has the one own key \<open>1\<close>. For an id that
  is an inherited name the lookup gives the inherited value, which the worker goes on to
  use as a snapshot: its \<open>name\<close> is the function's name (\<open>undefined\<close> for the prototype
  object), and it has no breakdown and no other field of a snapshot.
\<close>

definition inheritedAsSnapshot :: "string \<Rightarrow> Snapshot" where
  "inheritedAsSnapshot key =
    \<lparr>snap_id = ''undefined'',
     snap_name = (if key = ''constructor'' then ''Object''
                  else if key = ''__proto__'' then ''undefined'' else key),
     snap_tags = [], parentId = ''undefined'', locked = False, createdAt = ''undefined'',
     breakdown = None\<rparr>"

definition mock_fetchSnapshotFromConvex :: "string \<Rightarrow> Snapshot option" where
  "mock_fetchSnapshotFromConvex snapshotId =
    (case getProperty [''1'' \<mapsto> mockSnapshot1] snapshotId of
       Own s \<Rightarrow> Some s
     | Inherited \<Rightarrow> Some (inheritedAsSnapshot snapshotId)
     | Undefined \<Rightarrow> None)"

definition mock_fetchSnapshotData ::
  "string \<Rightarrow> string option \<Rightarrow> js_error + SourceData" where
  "mock_fetchSnapshotData component filePath = Inr (MockData component filePath)"

definition mock_fetchLiveData :: "string \<Rightarrow> 'cred InstanceInfo \<Rightarrow> js_error + SourceData" where
  "mock_fetchLiveData component instanceInfo = Inr Null"

definition mockAdapters :: "'cred Adapters" where
  "mockAdapters =
    \<lparr>fetchSnapshotFromConvex = mock_fetchSnapshotFromConvex,
     fetchSnapshotData = mock_fetchSnapshotData,
     fetchLiveData = mock_fetchLiveData\<rparr>"

section \<open>The worker\<close>

text \<open>
  A non-negative integer inside a template literal (below \<open>10^21\<close>, where JavaScript
  switches to exponent notation).
\<close>

fun showNat :: "nat \<Rightarrow> string" where
  "showNat n =
     (if n < 10 then [char_of (48 + n)]
      else showNat (n div 10) @ [char_of (48 + n mod 10)])"

declare showNat.simps [simp del]

text \<open>
  The validation block, shared by the two revisions up to the component list handed to
  \<open>validateSnapshot\<close>:
  \<^verbatim>\<open>
  if (source.type === 'snapshot' && source.snapshotId) {
    await job.log(`Fetching snapshot ${source.snapshotId}`);
    snapshot = await fetchSnapshotFromConvex(source.snapshotId);
    if (!snapshot) { throw new Error(`Snapshot ${source.snapshotId} not found`); }
    await job.log(`Validating snapshot ${snapshot.name}`);
    await validateSnapshot(snapshot, <components>);
    await job.log(`Snapshot validation successful`);
  }\<close>
  The guard is on the truthiness of \<open>snapshotId\<close>: an absent or empty id skips the block.
  The value is the variable \<open>snapshot\<close> after the block, or the thrown error.
\<close>

definition validationBlock ::
  "'cred Adapters \<Rightarrow> SourceType \<Rightarrow> string option \<Rightarrow> string list
     \<Rightarrow> event list \<times> (js_error + Snapshot option)" where
  "validationBlock ad sourceType snapshotId components =
    (case snapshotId of
       None \<Rightarrow> ([], Inr None)
     | Some sid \<Rightarrow>
        if sourceType = snapshot \<and> sid \<noteq> []
        then
          (case fetchSnapshotFromConvex ad sid of
             None \<Rightarrow>
               ([Log (''Fetching snapshot '' @ sid)],
                Inl (Error (''Snapshot '' @ sid @ '' not found'')))
           | Some s \<Rightarrow>
               (case validateSnapshot (Some s) components of
                  Inl e \<Rightarrow>
                    ([Log (''Fetching snapshot '' @ sid),
                      Log (''Validating snapshot '' @ snap_name s)], Inl e)
                | Inr _ \<Rightarrow>
                    ([Log (''Fetching snapshot '' @ sid),
                      Log (''Validating snapshot '' @ snap_name s),
                      Log ''Snapshot validation successful''], Inr (Some s))))
        else ([], Inr None))"

text \<open>
  Getting the source data of one component, the same in the two revisions:
  \<^verbatim>\<open>
  if (source.type === 'snapshot' && snapshot) {
    const componentInfo = snapshot.breakdown[component];
    await job.log(`Fetching ${component} from snapshot (size: ${componentInfo.size} bytes)`);
    sourceData = await fetchSnapshotData(component, componentInfo.file);
  } else {
    await job.log(`Fetching ${component} from live instance ${source.instanceInfo.subdomain}`);
    sourceData = await fetchLiveData(component, source.instanceInfo);
  }\<close>
  Reading through an undefined breakdown or an undefined entry throws a \<open>TypeError\<close>.
  An inherited value has neither \<open>size\<close> nor \<open>file\<close>: the line shows \<open>undefined\<close> and the
  file path is \<open>undefined\<close>.
\<close>

definition getSourceData ::
  "'cred Adapters \<Rightarrow> SourceType \<Rightarrow> 'cred InstanceInfo \<Rightarrow> Snapshot option \<Rightarrow> string
     \<Rightarrow> event list \<times> (js_error + SourceData)" where
  "getSourceData ad sourceType instanceInfo snap component =
    (case (if sourceType = snapshot then snap else None) of
       Some s \<Rightarrow>
        (case breakdown s of
           None \<Rightarrow>
             ([], Inl (TypeError (''Cannot read properties of undefined (reading ''
                                  @ [CHR 0x27] @ component @ [CHR 0x27] @ '')'')))
         | Some b \<Rightarrow>
            (case getProperty b component of
               Undefined \<Rightarrow>
                 ([], Inl (TypeError (''Cannot read properties of undefined (reading ''
                                      @ [CHR 0x27] @ ''size'' @ [CHR 0x27] @ '')'')))
             | Inherited \<Rightarrow>
                 ([Log (''Fetching '' @ component @ '' from snapshot (size: undefined bytes)'')],
                  fetchSnapshotData ad component None)
             | Own componentInfo \<Rightarrow>
                 ([Log (''Fetching '' @ component @ '' from snapshot (size: ''
                        @ showNat (bd_size componentInfo) @ '' bytes)'')],
                  fetchSnapshotData ad component (Some (bd_file componentInfo)))))
     | None \<Rightarrow>
         ([Log (''Fetching '' @ component @ '' from live instance ''
                @ subdomain instanceInfo)],
          fetchLiveData ad component instanceInfo))"

text \<open>
  The \<open>catch\<close> of the inner \<open>try\<close>: log the component and the message, throw again.
\<close>

definition catchComponent ::
  "string \<Rightarrow> event list \<times> (js_error + nat) \<Rightarrow> event list \<times> (js_error + nat)" where
  "catchComponent component r =
    (case r of
       (ev, Inl e) \<Rightarrow>
         (ev @ [Log (''Error processing '' @ component @ '': '' @ errorMessage e)], Inl e)
     | (ev, Inr k) \<Rightarrow> (ev, Inr k))"

text \<open>
  \<open>for (const component of ...)\<close>: the body is run on each component in turn with the
  counter \<open>currentStep\<close>; a throw leaves the loop.
\<close>

fun migrateLoop ::
  "(nat \<Rightarrow> string \<Rightarrow> event list \<times> (js_error + nat)) \<Rightarrow> string list \<Rightarrow> nat
     \<Rightarrow> event list \<times> (js_error + nat)" where
  "migrateLoop body [] currentStep = ([], Inr currentStep)"
| "migrateLoop body (component # rest) currentStep =
     (case body currentStep component of
        (ev, Inl e) \<Rightarrow> (ev, Inl e)
      | (ev, Inr k) \<Rightarrow>
          (case migrateLoop body rest k of (ev', r) \<Rightarrow> (ev @ ev', r)))"

text \<open>The run of a worker: the events, the job data as the run leaves it, the outcome.\<close>

record ('d, 'r) Run =
  trace :: "event list"
  jobData :: 'd
  result :: "js_error + 'r"

record JobResult =
  status :: string
  jobId :: string

record JobResultWithMappings = JobResult +
  idMappings :: "IdMapping list"

subsection \<open>The components revision\<close>

record 'cred MigrationJobData =
  source_type :: SourceType
  source_instanceInfo :: "'cred InstanceInfo"
  source_snapshotId :: "string option"
  target_instanceInfo :: "'cred InstanceInfo"
  job_id :: string
  job_components :: "string list"

text \<open>The body of the loop of the components revision, for one component.\<close>

definition migrateComponent ::
  "'cred Adapters \<Rightarrow> 'cred MigrationJobData \<Rightarrow> Snapshot option \<Rightarrow> nat \<Rightarrow> nat \<Rightarrow> string
     \<Rightarrow> event list \<times> (js_error + nat)" where
  "migrateComponent ad d snap totalSteps currentStep component =
    (case catchComponent component
       (case getSourceData ad (source_type d) (source_instanceInfo d) snap component of
          (ev, Inl e) \<Rightarrow> (ev, Inl e)
        | (ev, Inr sourceData) \<Rightarrow>
            (ev @
             [Log (''Processing '' @ component @ '' ('' @ showNat (currentStep + 1) @ ''/''
                   @ showNat totalSteps @ '')''),
              Log (''Creating '' @ component @ '' in target instance ''
                   @ subdomain (target_instanceInfo d)),
              UpdateProgress (of_nat (currentStep + 1) / of_nat totalSteps * 100)],
             Inr (currentStep + 1)))
     of (ev, r) \<Rightarrow> (Log (''Starting migration of '' @ component) # ev, r))"

text \<open>
  The worker of the components revision. \<open>idMappings\<close> is created empty and nothing in the
  run appends to it. \<open>sort\<close> works in place: \<open>sortedComponents\<close> and the job's own
  \<open>components\<close> are one array, so the job data leaves the run sorted whenever the run
  reaches the sort.
\<close>

definition queueProcessor ::
  "'cred Adapters \<Rightarrow> 'cred MigrationJobData
     \<Rightarrow> ('cred MigrationJobData, JobResultWithMappings) Run" where
  "queueProcessor ad d =
    (let idMappings0 = [];
         totalSteps = length (job_components d);
         init = Log (''Initializing migration job at tmp/'' @ job_id d)
     in
       case validationBlock ad (source_type d) (source_snapshotId d) (job_components d) of
         (ev, Inl e) \<Rightarrow>
           \<lparr>trace = init # ev @ [Log (''Fatal error in migration job: '' @ errorMessage e)],
            jobData = d, result = Inl e\<rparr>
       | (ev, Inr snap) \<Rightarrow>
          (let sorted = sortedComponents (job_components d);
               d' = d\<lparr>job_components := sorted\<rparr>
           in
             case migrateLoop (migrateComponent ad d' snap totalSteps) sorted 0 of
               (ev', Inl e) \<Rightarrow>
                 \<lparr>trace = init # ev @ ev'
                    @ [Log (''Fatal error in migration job: '' @ errorMessage e)],
                  jobData = d', result = Inl e\<rparr>
             | (ev', Inr k) \<Rightarrow>
                 \<lparr>trace = init # ev @ ev', jobData = d',
                  result = Inr \<lparr>status = ''completed'', jobId = job_id d,
                                idMappings = idMappings0\<rparr>\<rparr>))"

subsection \<open>The ignoredItems revision\<close>

record 'cred IgnoredItemsJobData =
  ij_jobId :: string
  ij_type :: string
  ij_source_type :: SourceType
  ij_source_instanceInfo :: "'cred InstanceInfo"
  ij_source_snapshotId :: "string option"
  ij_target_instanceInfo :: "'cred InstanceInfo"
  ij_ignoredItems :: "string list option"
  translation :: "bool option"
  translationLocales :: "string list option"

text \<open>The body of the loop of the ignoredItems revision, for one component.\<close>

definition migrateComponent_ignoredItems ::
  "'cred Adapters \<Rightarrow> 'cred IgnoredItemsJobData \<Rightarrow> Snapshot option \<Rightarrow> nat \<Rightarrow> nat \<Rightarrow> string
     \<Rightarrow> event list \<times> (js_error + nat)" where
  "migrateComponent_ignoredItems ad d snap totalSteps currentStep component =
    (case catchComponent component
       (case getSourceData ad (ij_source_type d) (ij_source_instanceInfo d) snap component of
          (ev, Inl e) \<Rightarrow> (ev, Inl e)
        | (ev, Inr sourceData) \<Rightarrow>
            (ev @
             [Log (''Creating '' @ component @ '' in target instance ''
                   @ subdomain (ij_target_instanceInfo d)),
              UpdateProgress (of_nat (currentStep + 1) / of_nat totalSteps * 100)],
             Inr (currentStep + 1)))
     of (ev, r) \<Rightarrow> (Log (''Starting migration of '' @ component) # ev, r))"

text \<open>
  The worker of the ignoredItems revision: \<open>totalSteps\<close> is the length of the catalog, the
  snapshot is validated against the catalog, and the components migrated are the catalog
  without the ignored items (\<open>ignoredItems = []\<close> when the job gives none).
\<close>

definition queueProcessor_ignoredItems ::
  "'cred Adapters \<Rightarrow> 'cred IgnoredItemsJobData
     \<Rightarrow> ('cred IgnoredItemsJobData, JobResult) Run" where
  "queueProcessor_ignoredItems ad d =
    (let ignoredItems = (case ij_ignoredItems d of None \<Rightarrow> [] | Some xs \<Rightarrow> xs);
         totalSteps = length MIGRATION_ORDER;
         init = Log (''Initializing migration job at tmp/'' @ ij_jobId d)
     in
       case validationBlock ad (ij_source_type d) (ij_source_snapshotId d) MIGRATION_ORDER of
         (ev, Inl e) \<Rightarrow>
           \<lparr>trace = init # ev @ [Log (''Fatal error in migration job: '' @ errorMessage e)],
            jobData = d, result = Inl e\<rparr>
       | (ev, Inr snap) \<Rightarrow>
          (case migrateLoop (migrateComponent_ignoredItems ad d snap totalSteps)
                  (componentsToMigrate ignoredItems) 0 of
             (ev', Inl e) \<Rightarrow>
               \<lparr>trace = init # ev @ ev'
                  @ [Log (''Fatal error in migration job: '' @ errorMessage e)],
                jobData = d, result = Inl e\<rparr>
           | (ev', Inr k) \<Rightarrow>
               \<lparr>trace = init # ev @ ev', jobData = d,
                result = Inr \<lparr>status = ''completed'', jobId = ij_jobId d\<rparr>\<rparr>))"

subsection \<open>Reading a trace\<close>

text \<open>The progress reports of a run, in order, and the components a run has started.\<close>

fun progressReports :: "event list \<Rightarrow> rat list" where
  "progressReports [] = []"
| "progressReports (UpdateProgress p # es) = p # progressReports es"
| "progressReports (Log l # es) = progressReports es"

fun startedSteps :: "event list \<Rightarrow> string list" where
  "startedSteps [] = []"
| "startedSteps (UpdateProgress p # es) = startedSteps es"
| "startedSteps (Log l # es) =
     (if prefix ''Starting migration of '' l then l # startedSteps es else startedSteps es)"

text \<open>
  The requested names that a catalog knows, in catalog order, each as often as it was
  requested.
\<close>

definition catalogPart :: "'a list \<Rightarrow> 'a list \<Rightarrow> 'a list" where
  "catalogPart catalog requested = concat (map (\<lambda>m. filter (\<lambda>c. c = m) requested) catalog)"

section \<open>Identifier translator\<close>

text \<open>
  Modelled from the spec: the source declares the \<open>IdMapping\<close> interface and an
  \<open>idMappings\<close> array and has no code that records or resolves a mapping. The spec's
  translator is an append-only table keyed by \<open>(entityType, sourceId)\<close>; \<open>resolve\<close> returns
  the target id of the key or \<open>NotFound\<close>.
\<close>

datatype TranslatorError = DuplicateMapping | NotFound

definition resolve :: "IdMapping list \<Rightarrow> string \<Rightarrow> IdValue \<Rightarrow> TranslatorError + IdValue" where
  "resolve table ty sourceId =
    (case find (\<lambda>m. entityType m = ty \<and> oldId m = sourceId) table of
       None \<Rightarrow> Inl NotFound
     | Some m \<Rightarrow> Inr (newId m))"

text \<open>
  Modelled from the spec: \<open>record(entityType, sourceId, targetId, metadata)\<close> inserts a new
  mapping and fails with \<open>DuplicateMapping\<close> if the key already exists. The table after
  the call is returned with the outcome.
\<close>

definition recordMapping ::
  "IdMapping list \<Rightarrow> string \<Rightarrow> IdValue \<Rightarrow> IdValue \<Rightarrow> (string \<times> string) list option
     \<Rightarrow> IdMapping list \<times> (TranslatorError + unit)" where
  "recordMapping table ty sourceId targetId md =
    (case find (\<lambda>m. entityType m = ty \<and> oldId m = sourceId) table of
       Some m \<Rightarrow> (table, Inl DuplicateMapping)
     | None \<Rightarrow>
         (table @ [\<lparr>oldId = sourceId, newId = targetId, entityType = ty, metadata = md\<rparr>],
          Inr ()))"

section \<open>Example jobs\<close>

definition exampleInstance :: "ZendeskCredentials InstanceInfo" where
  "exampleInstance =
    \<lparr>inst_id = ''7'', inst_name = ''Acme'', subdomain = ''acme'', inst_tags = [],
     credentials = \<lparr>token = ''t'', email = ''ops@acme.test''\<rparr>\<rparr>"

text \<open>A job on the mock snapshot that requests its two components, forms first.\<close>

definition snapshotJob :: "ZendeskCredentials MigrationJobData" where
  "snapshotJob =
    \<lparr>source_type = snapshot, source_instanceInfo = exampleInstance,
     source_snapshotId = Some ''1'', target_instanceInfo = exampleInstance,
     job_id = ''migration-1'', job_components = [''ticket_forms'', ''ticket_fields'']\<rparr>"

text \<open>The same job without a snapshot id: its source type is still snapshot.\<close>

definition snapshotJobWithoutId :: "ZendeskCredentials MigrationJobData" where
  "snapshotJobWithoutId =
    \<lparr>source_type = snapshot, source_instanceInfo = exampleInstance,
     source_snapshotId = None, target_instanceInfo = exampleInstance,
     job_id = ''migration-6'', job_components = [''ticket_forms'', ''ticket_fields'']\<rparr>"

text \<open>A job on the mock snapshot that requests a name every object inherits.\<close>

definition constructorJob :: "ZendeskCredentials MigrationJobData" where
  "constructorJob =
    \<lparr>source_type = snapshot, source_instanceInfo = exampleInstance,
     source_snapshotId = Some ''1'', target_instanceInfo = exampleInstance,
     job_id = ''migration-7'', job_components = [''constructor'']\<rparr>"

text \<open>A live job that requests a name the catalog does not know.\<close>

definition liveJob :: "ZendeskCredentials MigrationJobData" where
  "liveJob =
    \<lparr>source_type = live, source_instanceInfo = exampleInstance,
     source_snapshotId = None, target_instanceInfo = exampleInstance,
     job_id = ''migration-2'', job_components = [''macros'', ''bogus'', ''groups'']\<rparr>"

text \<open>Adapters whose live fetch fails on macros.\<close>

definition failingAdapters :: "ZendeskCredentials Adapters" where
  "failingAdapters =
    \<lparr>fetchSnapshotFromConvex = mock_fetchSnapshotFromConvex,
     fetchSnapshotData = mock_fetchSnapshotData,
     fetchLiveData = (\<lambda>component instanceInfo.
        if component = ''macros'' then Inl (Error ''rate limited'') else Inr Null)\<rparr>"

text \<open>Jobs of the ignoredItems revision: live, and on the mock snapshot.\<close>

definition ignoredItemsJob :: "string list \<Rightarrow> ZendeskCredentials IgnoredItemsJobData" where
  "ignoredItemsJob ignored =
    \<lparr>ij_jobId = ''migration-3'', ij_type = ''full'', ij_source_type = live,
     ij_source_instanceInfo = exampleInstance, ij_source_snapshotId = None,
     ij_target_instanceInfo = exampleInstance, ij_ignoredItems = Some ignored,
     translation = None, translationLocales = None\<rparr>"

definition ignoredItemsSnapshotJob :: "string list \<Rightarrow> ZendeskCredentials IgnoredItemsJobData" where
  "ignoredItemsSnapshotJob ignored =
    \<lparr>ij_jobId = ''migration-4'', ij_type = ''full'', ij_source_type = snapshot,
     ij_source_instanceInfo = exampleInstance, ij_source_snapshotId = Some ''1'',
     ij_target_instanceInfo = exampleInstance, ij_ignoredItems = Some ignored,
     translation = None, translationLocales = None\<rparr>"

text \<open>Every catalog entry that the mock snapshot does not hold.\<close>

definition notInMockSnapshot :: "string list" where
  "notInMockSnapshot =
    [''custom_statuses'', ''groups'', ''custom_roles'', ''brands'', ''dynamic_content'',
     ''macros'', ''triggers'', ''trigger_categories'', ''views'', ''webhooks'', ''apps'',
     ''skills'']"

text \<open>A live job whose ordered list is groups, macros, views.\<close>

definition threeComponentJob :: "ZendeskCredentials MigrationJobData" where
  "threeComponentJob =
    \<lparr>source_type = live, source_instanceInfo = exampleInstance,
     source_snapshotId = None, target_instanceInfo = exampleInstance,
     job_id = ''migration-5'', job_components = [''views'', ''macros'', ''groups'']\<rparr>"

text \<open>Every catalog entry but groups, macros and views.\<close>

definition allButGroupsMacrosViews :: "string list" where
  "allButGroupsMacrosViews =
    [''custom_statuses'', ''custom_roles'', ''ticket_fields'', ''ticket_forms'', ''brands'',
     ''dynamic_content'', ''triggers'', ''trigger_categories'', ''webhooks'', ''apps'',
     ''skills'']"

section \<open>Evaluating the workers on concrete jobs\<close>

lemma showNat_digit: "n < 10 \<Longrightarrow> showNat n = [char_of (48 + n)]"
  by (simp add: showNat.simps)

lemma showNat_step:
  "\<not> n < 10 \<Longrightarrow> showNat n = showNat (n div 10) @ [char_of (48 + n mod 10)]"
  by (subst showNat.simps) simp

lemma showNat_examples:
  "showNat 1 = ''1''" "showNat 2 = ''2''" "showNat 3 = ''3''"
  "showNat (Suc 0) = ''1''" "showNat (Suc (Suc 0)) = ''2''"
  "showNat (Suc (Suc (Suc 0))) = ''3''"
  "showNat 2500 = ''2500''" "showNat 4500 = ''4500''"
  by (simp_all add: showNat_step showNat_digit char_of_def bit_Suc_0_iff
      numeral_2_eq_2 [symmetric] numeral_3_eq_3 [symmetric])

lemmas evalDefs =
  queueProcessor_def queueProcessor_ignoredItems_def validationBlock_def validateSnapshot_def
  mockAdapters_def failingAdapters_def mock_fetchSnapshotFromConvex_def
  mock_fetchSnapshotData_def mock_fetchLiveData_def mockSnapshot1_def mockBreakdown_def
  exampleInstance_def sortedComponents_def componentsToMigrate_def MIGRATION_ORDER_def
  migrateComponent_def migrateComponent_ignoredItems_def getSourceData_def catchComponent_def
  getProperty_def objectPrototypeKeys_def inheritedAsSnapshot_def Let_def showNat_examples

lemma snapshotJob_run:
  "queueProcessor mockAdapters snapshotJob
     = \<lparr>trace =
          [Log ''Initializing migration job at tmp/migration-1'',
           Log ''Fetching snapshot 1'',
           Log ''Validating snapshot Snapshot 1'',
           Log ''Snapshot validation successful'',
           Log ''Starting migration of ticket_fields'',
           Log ''Fetching ticket_fields from snapshot (size: 4500 bytes)'',
           Log ''Processing ticket_fields (1/2)'',
           Log ''Creating ticket_fields in target instance acme'',
           UpdateProgress 50,
           Log ''Starting migration of ticket_forms'',
           Log ''Fetching ticket_forms from snapshot (size: 2500 bytes)'',
           Log ''Processing ticket_forms (2/2)'',
           Log ''Creating ticket_forms in target instance acme'',
           UpdateProgress 100],
        jobData = snapshotJob\<lparr>job_components := [''ticket_fields'', ''ticket_forms'']\<rparr>,
        result = Inr \<lparr>status = ''completed'', jobId = ''migration-1'', idMappings = []\<rparr>\<rparr>"
  by (simp add: evalDefs snapshotJob_def)

lemma liveJob_run:
  "queueProcessor mockAdapters liveJob
     = \<lparr>trace =
          [Log ''Initializing migration job at tmp/migration-2'',
           Log ''Starting migration of bogus'',
           Log ''Fetching bogus from live instance acme'',
           Log ''Processing bogus (1/3)'',
           Log ''Creating bogus in target instance acme'',
           UpdateProgress (100 / 3),
           Log ''Starting migration of groups'',
           Log ''Fetching groups from live instance acme'',
           Log ''Processing groups (2/3)'',
           Log ''Creating groups in target instance acme'',
           UpdateProgress (200 / 3),
           Log ''Starting migration of macros'',
           Log ''Fetching macros from live instance acme'',
           Log ''Processing macros (3/3)'',
           Log ''Creating macros in target instance acme'',
           UpdateProgress 100],
        jobData = liveJob\<lparr>job_components := [''bogus'', ''groups'', ''macros'']\<rparr>,
        result = Inr \<lparr>status = ''completed'', jobId = ''migration-2'', idMappings = []\<rparr>\<rparr>"
  by (simp add: evalDefs liveJob_def)

lemma ignoredItemsSnapshotJob_run:
  "queueProcessor_ignoredItems mockAdapters (ignoredItemsSnapshotJob notInMockSnapshot)
     = \<lparr>trace =
          [Log ''Initializing migration job at tmp/migration-4'',
           Log ''Fetching snapshot 1'',
           Log ''Validating snapshot Snapshot 1'',
           Log (''Fatal error in migration job: Snapshot missing required components: ''
                @ ''custom_statuses, groups, custom_roles, brands, dynamic_content, macros, ''
                @ ''triggers, trigger_categories, views, webhooks, apps, skills'')],
        jobData = ignoredItemsSnapshotJob notInMockSnapshot,
        result = Inl (Error (''Snapshot missing required components: custom_statuses, groups, ''
                     @ ''custom_roles, brands, dynamic_content, macros, triggers, ''
                     @ ''trigger_categories, views, webhooks, apps, skills''))\<rparr>"
  by (simp add: evalDefs ignoredItemsSnapshotJob_def notInMockSnapshot_def)

lemma snapshotJobWithoutId_run:
  "queueProcessor mockAdapters snapshotJobWithoutId
     = \<lparr>trace =
          [Log ''Initializing migration job at tmp/migration-6'',
           Log ''Starting migration of ticket_fields'',
           Log ''Fetching ticket_fields from live instance acme'',
           Log ''Processing ticket_fields (1/2)'',
           Log ''Creating ticket_fields in target instance acme'',
           UpdateProgress 50,
           Log ''Starting migration of ticket_forms'',
           Log ''Fetching ticket_forms from live instance acme'',
           Log ''Processing ticket_forms (2/2)'',
           Log ''Creating ticket_forms in target instance acme'',
           UpdateProgress 100],
        jobData = snapshotJobWithoutId\<lparr>job_components := [''ticket_fields'', ''ticket_forms'']\<rparr>,
        result = Inr \<lparr>status = ''completed'', jobId = ''migration-6'', idMappings = []\<rparr>\<rparr>"
  by (simp add: evalDefs snapshotJobWithoutId_def)

lemma constructorJob_run:
  "queueProcessor mockAdapters constructorJob
     = \<lparr>trace =
          [Log ''Initializing migration job at tmp/migration-7'',
           Log ''Fetching snapshot 1'',
           Log ''Validating snapshot Snapshot 1'',
           Log ''Snapshot validation successful'',
           Log ''Starting migration of constructor'',
           Log ''Fetching constructor from snapshot (size: undefined bytes)'',
           Log ''Processing constructor (1/1)'',
           Log ''Creating constructor in target instance acme'',
           UpdateProgress 100],
        jobData = constructorJob,
        result = Inr \<lparr>status = ''completed'', jobId = ''migration-7'', idMappings = []\<rparr>\<rparr>"
  by (simp add: evalDefs constructorJob_def)

section \<open>Ordering of the requested components\<close>

lemma indexOf_neg_iff: "indexOf M x < 0 \<longleftrightarrow> x \<notin> set M"
  by (induction M) (auto simp: Let_def)

lemma indexOf_absent: "x \<notin> set M \<Longrightarrow> indexOf M x = - 1"
  by (induction M) (auto simp: Let_def)

lemma indexOf_present: "x \<in> set M \<Longrightarrow> 0 \<le> indexOf M x"
  using indexOf_neg_iff [of M x] by simp

lemma indexOf_Cons_other:
  "x \<in> set M \<Longrightarrow> x \<noteq> m \<Longrightarrow> indexOf (m # M) x = indexOf M x + 1"
  using indexOf_neg_iff [of M x] by (simp add: Let_def)

lemma indexOf_inj: "x \<in> set M \<Longrightarrow> indexOf M x = indexOf M y \<Longrightarrow> x = y"
proof (induction M)
  case Nil
  then show ?case by simp
next
  case (Cons m M)
  show ?case
  proof (cases "x = m")
    case True
    with Cons.prems show ?thesis
      using indexOf_neg_iff [of M y] by (auto simp: Let_def split: if_splits)
  next
    case False
    with Cons.prems have "x \<in> set M" by simp
    with Cons.prems False show ?thesis
      using indexOf_neg_iff [of M y] indexOf_neg_iff [of M x] Cons.IH
      by (auto simp: Let_def split: if_splits)
  qed
qed

lemma catalogPart_Cons:
  "catalogPart (m # M) cs = filter (\<lambda>c. c = m) cs @ catalogPart M cs"
  by (simp add: catalogPart_def)

lemma set_catalogPart: "set (catalogPart M cs) = set M \<inter> set cs"
  by (auto simp: catalogPart_def)

lemma sorted_catalogPart: "distinct M \<Longrightarrow> sorted (map (indexOf M) (catalogPart M cs))"
proof (induction M)
  case Nil
  then show ?case by (simp add: catalogPart_def)
next
  case (Cons m M)
  have tail: "map (indexOf (m # M)) (catalogPart M cs)
      = map (\<lambda>y. indexOf M y + 1) (catalogPart M cs)"
    using Cons.prems by (intro map_cong refl indexOf_Cons_other) (auto simp: set_catalogPart)
  have "sorted (map (\<lambda>y. indexOf M y + 1) (catalogPart M cs))"
    using Cons by (simp add: sorted_map)
  moreover have "map (indexOf (m # M)) (filter (\<lambda>c. c = m) cs)
      = replicate (length (filter (\<lambda>c. c = m) cs)) 0"
    by (induction cs) auto
  then have "sorted (map (indexOf (m # M)) (filter (\<lambda>c. c = m) cs))"
    by simp
  moreover have "\<forall>x\<in>set (filter (\<lambda>c. c = m) cs). \<forall>y\<in>set (catalogPart M cs).
      indexOf (m # M) x \<le> indexOf M y + 1"
    using indexOf_present [of _ M] by (auto simp: set_catalogPart)
  ultimately show ?case
    unfolding catalogPart_Cons map_append tail by (simp add: sorted_append)
qed

lemma mset_catalogPart:
  "distinct M \<Longrightarrow> mset (catalogPart M cs) = filter_mset (\<lambda>c. c \<in> set M) (mset cs)"
proof (induction M)
  case Nil
  then show ?case by (simp add: catalogPart_def)
next
  case (Cons m M)
  have "filter_mset (\<lambda>c. c \<in> set (m # M)) (mset cs)
      = filter_mset (\<lambda>c. c = m) (mset cs) + filter_mset (\<lambda>c. c \<in> set M) (mset cs)"
    using Cons.prems by (induction cs) auto
  with Cons show ?case unfolding catalogPart_Cons by simp
qed

lemma filter_eq_catalogPart:
  "distinct M \<Longrightarrow> m \<in> set M \<Longrightarrow>
     filter (\<lambda>c. c = m) (catalogPart M cs) = filter (\<lambda>c. c = m) cs"
proof (induction M)
  case Nil
  then show ?case by simp
next
  case (Cons a M)
  show ?case
  proof (cases "m = a")
    case True
    with Cons.prems have "filter (\<lambda>c. c = m) (catalogPart M cs) = []"
      by (auto simp: filter_empty_conv set_catalogPart)
    with True show ?thesis unfolding catalogPart_Cons by simp
  next
    case False
    then have "filter (\<lambda>c. c = m) (filter (\<lambda>c. c = a) cs) = []"
      by (auto simp: filter_empty_conv)
    with False Cons show ?thesis unfolding catalogPart_Cons by simp
  qed
qed

lemma sort_key_indexOf:
  assumes "distinct M"
  shows "sort_key (indexOf M) cs = filter (\<lambda>c. c \<notin> set M) cs @ catalogPart M cs"
proof (rule properties_for_sort_key)
  show "mset (filter (\<lambda>c. c \<notin> set M) cs @ catalogPart M cs) = mset cs"
    using assms by (simp add: mset_catalogPart)
next
  fix k
  show "filter (\<lambda>x. indexOf M k = indexOf M x) (filter (\<lambda>c. c \<notin> set M) cs @ catalogPart M cs)
        = filter (\<lambda>x. indexOf M k = indexOf M x) cs"
  proof (cases "k \<in> set M")
    case True
    then have eq: "(\<lambda>x. indexOf M k = indexOf M x) = (\<lambda>x. x = k)"
      using indexOf_inj [of k M] by auto
    have "filter (\<lambda>x. x = k) (filter (\<lambda>c. c \<notin> set M) cs) = []"
      using True by (auto simp: filter_empty_conv)
    then show ?thesis
      unfolding eq using True assms by (simp add: filter_eq_catalogPart)
  next
    case False
    have "indexOf M k = indexOf M x \<longleftrightarrow> x \<notin> set M" for x
      using False indexOf_neg_iff [of M x] by (auto simp: indexOf_absent)
    then have eq: "(\<lambda>x. indexOf M k = indexOf M x) = (\<lambda>x. x \<notin> set M)"
      by auto
    have "filter (\<lambda>x. x \<notin> set M) (catalogPart M cs) = []"
      by (auto simp: filter_empty_conv set_catalogPart)
    then show ?thesis unfolding eq by simp
  qed
next
  have "\<forall>x\<in>set (filter (\<lambda>c. c \<notin> set M) cs). \<forall>y\<in>set (catalogPart M cs).
      indexOf M x \<le> indexOf M y"
    using indexOf_present [of _ M] by (fastforce simp: set_catalogPart indexOf_absent)
  moreover have "map (indexOf M) (filter (\<lambda>c. c \<notin> set M) cs)
      = replicate (length (filter (\<lambda>c. c \<notin> set M) cs)) (- 1)"
    by (induction cs) (auto simp: indexOf_absent)
  then have "sorted (map (indexOf M) (filter (\<lambda>c. c \<notin> set M) cs))"
    by simp
  ultimately show "sorted (map (indexOf M) (filter (\<lambda>c. c \<notin> set M) cs @ catalogPart M cs))"
    using assms by (simp add: sorted_append sorted_catalogPart)
qed

lemma distinct_MIGRATION_ORDER: "distinct MIGRATION_ORDER"
  by (simp add: MIGRATION_ORDER_def)

text \<open>
  C1 (as amended). The ordered list is the requested array stably sorted by catalog
  index. The names the catalog does not know are kept, in request order, ahead of all
  others; the names it knows follow in catalog order, each as often as it was requested.
  Nothing is dropped and there is no error outcome.
\<close>

theorem sortedComponents_keeps_unknown_then_catalog_order:
  "sortedComponents requested
     = filter (\<lambda>c. c \<notin> set MIGRATION_ORDER) requested @ catalogPart MIGRATION_ORDER requested
   \<and> mset (sortedComponents requested) = mset requested
   \<and> sorted (map (indexOf MIGRATION_ORDER) (sortedComponents requested))"
  unfolding sortedComponents_def
  by (simp add: sort_key_indexOf [OF distinct_MIGRATION_ORDER, symmetric])

text \<open>
  C1 fails as stated: a requested name outside the catalog is neither rejected nor
  dropped. It is sorted to the front, and the live job that requests it completes.
\<close>

theorem unknown_component_not_rejected:
  "''bogus'' \<notin> set MIGRATION_ORDER
   \<and> sortedComponents [''macros'', ''bogus'', ''groups''] = [''bogus'', ''groups'', ''macros'']
   \<and> result (queueProcessor mockAdapters liveJob)
       = Inr \<lparr>status = ''completed'', jobId = ''migration-2'', idMappings = []\<rparr>
   \<and> startedSteps (trace (queueProcessor mockAdapters liveJob))
       = [''Starting migration of bogus'', ''Starting migration of groups'',
          ''Starting migration of macros'']"
  by (simp add: liveJob_run sortedComponents_def MIGRATION_ORDER_def)

section \<open>Snapshot validation\<close>

lemma sublist_join: "x \<in> set xs \<Longrightarrow> sublist x (join sep xs)"
proof (induction sep xs rule: join.induct)
  case (1 sep)
  then show ?case by simp
next
  case (2 sep y)
  then show ?case by simp
next
  case (3 sep y z zs)
  show ?case
  proof (cases "x = y")
    case True
    then show ?thesis by simp
  next
    case False
    with 3 have "sublist x (join sep (z # zs))" by simp
    then have "sublist x ((y @ sep) @ join sep (z # zs))"
      by (rule sublist_order.order_trans) (rule sublist_append_leftI)
    then show ?thesis by simp
  qed
qed

lemma validateSnapshot_missing:
  assumes "breakdown s = Some b"
    and "filter (\<lambda>c. \<not> truthy (getProperty b c)) components \<noteq> []"
  shows "validateSnapshot (Some s) components
     = Inl (Error (''Snapshot missing required components: ''
                   @ join '', '' (filter (\<lambda>c. \<not> truthy (getProperty b c)) components)))"
  using assms by (simp add: validateSnapshot_def)

lemma validateSnapshot_complete:
  assumes "breakdown s = Some b"
    and "filter (\<lambda>c. \<not> truthy (getProperty b c)) components = []"
  shows "validateSnapshot (Some s) components
     = (if locked s then Inl (Error ''Cannot use locked snapshot for migration'') else Inr ())"
  using assms by (simp add: validateSnapshot_def)

lemma truthy_own: "b c \<noteq> None \<Longrightarrow> truthy (getProperty b c)"
  by (auto simp: getProperty_def)

lemma truthy_plain_name:
  "c \<notin> set objectPrototypeKeys \<Longrightarrow> truthy (getProperty b c) \<longleftrightarrow> b c \<noteq> None"
  by (cases "b c") (simp_all add: getProperty_def)

text \<open>
  C7 (as amended). A locked snapshot never validates, in either revision of the
  validator; the error is the locked error whenever the snapshot has a breakdown that
  holds every required component. (Without a breakdown, or with a component missing,
  the earlier check throws its own error first.)
\<close>

theorem locked_snapshot_never_validates:
  assumes "locked s"
  shows "validateSnapshot (Some s) components \<noteq> Inr ()
     \<and> validateSnapshot_unguarded s components \<noteq> Inr ()
     \<and> (\<forall>b. breakdown s = Some b \<and> (\<forall>c\<in>set components. b c \<noteq> None) \<longrightarrow>
           validateSnapshot (Some s) components
             = Inl (Error ''Cannot use locked snapshot for migration'')
         \<and> validateSnapshot_unguarded s components
             = Inl (Error ''Cannot use locked snapshot for migration''))"
proof (intro conjI allI impI)
  show "validateSnapshot (Some s) components \<noteq> Inr ()"
    using assms by (simp add: validateSnapshot_def Let_def split: option.splits)
  show "validateSnapshot_unguarded s components \<noteq> Inr ()"
    using assms
    by (simp add: validateSnapshot_unguarded_def Let_def split: option.splits list.splits)
next
  fix b
  assume h: "breakdown s = Some b \<and> (\<forall>c\<in>set components. b c \<noteq> None)"
  then have none: "filter (\<lambda>c. \<not> truthy (getProperty b c)) components = []"
    by (auto simp: filter_empty_conv truthy_own)
  show "validateSnapshot (Some s) components
      = Inl (Error ''Cannot use locked snapshot for migration'')"
    using h none assms by (simp add: validateSnapshot_complete)
  show "validateSnapshot_unguarded s components
      = Inl (Error ''Cannot use locked snapshot for migration'')"
    using h none assms by (simp add: validateSnapshot_unguarded_def)
qed

theorem locked_snapshot_never_validates_witness:
  "locked (mockSnapshot1\<lparr>locked := True\<rparr>)
   \<and> validateSnapshot (Some (mockSnapshot1\<lparr>locked := True\<rparr>)) [''ticket_forms'', ''ticket_fields'']
       = Inl (Error ''Cannot use locked snapshot for migration'')
   \<and> validateSnapshot_unguarded (mockSnapshot1\<lparr>locked := True\<rparr>) [''ticket_forms'', ''ticket_fields'']
       = Inl (Error ''Cannot use locked snapshot for migration'')"
proof -
  have l: "locked (mockSnapshot1\<lparr>locked := True\<rparr>)" by simp
  have b: "breakdown (mockSnapshot1\<lparr>locked := True\<rparr>) = Some mockBreakdown
      \<and> (\<forall>c\<in>set [''ticket_forms'', ''ticket_fields'']. mockBreakdown c \<noteq> None)"
    by (simp add: mockSnapshot1_def mockBreakdown_def)
  show ?thesis
    using l b locked_snapshot_never_validates
      [OF l, of "[''ticket_forms'', ''ticket_fields'']"]
    by blast
qed

text \<open>
  C7 fails as stated: for a locked snapshot that lacks a required component, the error
  is the missing components error, not the locked error.
\<close>

theorem locked_snapshot_missing_component_error:
  "locked (mockSnapshot1\<lparr>locked := True\<rparr>)
   \<and> validateSnapshot (Some (mockSnapshot1\<lparr>locked := True\<rparr>)) [''groups'']
       = Inl (Error ''Snapshot missing required components: groups'')
   \<and> validateSnapshot (Some (mockSnapshot1\<lparr>locked := True\<rparr>)) [''groups'']
       \<noteq> Inl (Error ''Cannot use locked snapshot for migration'')"
  by (simp add: validateSnapshot_def mockSnapshot1_def mockBreakdown_def getProperty_def
      objectPrototypeKeys_def)

text \<open>
  For required names that no object inherits: when the snapshot has a breakdown and at
  least one required component is absent from it, validation fails and the error
  message is the fixed prefix followed by all the absent components, in the order
  required, joined by a comma and a space, so each of them occurs in it.
\<close>

lemma validateSnapshot_names_missing_plain_names:
  assumes "breakdown s = Some b" and "\<exists>c\<in>set components. b c = None"
    and "set components \<inter> set objectPrototypeKeys = {}"
  shows "validateSnapshot (Some s) components
       = Inl (Error (''Snapshot missing required components: ''
                     @ join '', '' (filter (\<lambda>c. b c = None) components)))
     \<and> (\<forall>c\<in>set components. b c = None \<longrightarrow>
          sublist c (''Snapshot missing required components: ''
                     @ join '', '' (filter (\<lambda>c. b c = None) components)))"
proof (intro conjI ballI impI)
  from assms(3) have eq: "filter (\<lambda>c. \<not> truthy (getProperty b c)) components
      = filter (\<lambda>c. b c = None) components"
  proof (intro filter_cong refl)
    fix c assume "c \<in> set components"
    with assms(3) have "c \<notin> set objectPrototypeKeys" by auto
    then show "(\<not> truthy (getProperty b c)) = (b c = None)"
      by (simp add: truthy_plain_name)
  qed
  from assms(2) have "filter (\<lambda>c. b c = None) components \<noteq> []"
    by (auto simp: filter_empty_conv)
  with assms(1) eq show "validateSnapshot (Some s) components
       = Inl (Error (''Snapshot missing required components: ''
                     @ join '', '' (filter (\<lambda>c. b c = None) components)))"
    using validateSnapshot_missing [of s b components] by simp
next
  fix c assume "c \<in> set components" and "b c = None"
  then have "c \<in> set (filter (\<lambda>c. b c = None) components)" by simp
  then have "sublist c (join '', '' (filter (\<lambda>c. b c = None) components))"
    by (rule sublist_join)
  then show "sublist c (''Snapshot missing required components: ''
                     @ join '', '' (filter (\<lambda>c. b c = None) components))"
    by (rule sublist_order.order_trans) (rule sublist_append_leftI)
qed

text \<open>
  C8 on the components revision, where the required names are the caller's. The mock
  snapshot holds neither \<open>constructor\<close> nor \<open>toString\<close>, yet every object inherits both, so
  the lookup is truthy: required alone, \<open>constructor\<close> is not reported and the snapshot
  validates; required with groups, the message names groups only. The job that requests
  \<open>constructor\<close> passes validation, reads an undefined size and completes.
\<close>

theorem inherited_names_not_reported_missing:
  "mockBreakdown ''constructor'' = None
   \<and> mockBreakdown ''toString'' = None
   \<and> validateSnapshot (Some mockSnapshot1) [''constructor''] = Inr ()
   \<and> validateSnapshot (Some mockSnapshot1) [''groups'', ''constructor'', ''toString'']
       = Inl (Error ''Snapshot missing required components: groups'')
   \<and> queueProcessor mockAdapters constructorJob
       = \<lparr>trace =
            [Log ''Initializing migration job at tmp/migration-7'',
             Log ''Fetching snapshot 1'',
             Log ''Validating snapshot Snapshot 1'',
             Log ''Snapshot validation successful'',
             Log ''Starting migration of constructor'',
             Log ''Fetching constructor from snapshot (size: undefined bytes)'',
             Log ''Processing constructor (1/1)'',
             Log ''Creating constructor in target instance acme'',
             UpdateProgress 100],
          jobData = constructorJob,
          result = Inr \<lparr>status = ''completed'', jobId = ''migration-7'', idMappings = []\<rparr>\<rparr>"
proof -
  have v: "validateSnapshot (Some mockSnapshot1) [''constructor''] = Inr ()"
    "validateSnapshot (Some mockSnapshot1) [''groups'', ''constructor'', ''toString'']
       = Inl (Error ''Snapshot missing required components: groups'')"
    by (simp_all add: validateSnapshot_def mockSnapshot1_def mockBreakdown_def getProperty_def
        objectPrototypeKeys_def)
  show ?thesis
    by (simp add: v constructorJob_run) (simp add: mockBreakdown_def)
qed

section \<open>The loop over the components\<close>

lemma migrateLoop_append:
  "migrateLoop body (xs @ ys) k =
     (case migrateLoop body xs k of
        (ev, Inl e) \<Rightarrow> (ev, Inl e)
      | (ev, Inr k') \<Rightarrow> (case migrateLoop body ys k' of (ev', r) \<Rightarrow> (ev @ ev', r)))"
proof (induction xs arbitrary: k)
  case Nil
  then show ?case by (simp split: prod.splits)
next
  case (Cons x xs)
  show ?case
  proof (cases "body k x")
    case (Pair ev r)
    show ?thesis
    proof (cases r)
      case (Inl e)
      with Pair show ?thesis by simp
    next
      case (Inr k')
      with Pair Cons.IH [of k'] show ?thesis
        by (simp split: prod.splits sum.splits)
    qed
  qed
qed

lemma migrateLoop_abort:
  assumes "migrateLoop body pre k0 = (evp, Inr k)" and "body k c = (evc, Inl e)"
  shows "migrateLoop body (pre @ c # post) k0 = (evp @ evc, Inl e)"
  using assms by (simp add: migrateLoop_append)

lemma progressReports_append:
  "progressReports (xs @ ys) = progressReports xs @ progressReports ys"
  by (induction xs rule: progressReports.induct) auto

lemma startedSteps_append: "startedSteps (xs @ ys) = startedSteps xs @ startedSteps ys"
  by (induction xs rule: startedSteps.induct) auto

lemma getSourceData_logs_only:
  "getSourceData ad ty info snap c = (ev, r) \<Longrightarrow> progressReports ev = [] \<and> startedSteps ev = []"
  by (auto simp: getSourceData_def split: option.splits if_splits property.splits)

lemma migrateComponent_fails:
  assumes "getSourceData ad (source_type d) (source_instanceInfo d) snap c = (evc, Inl e)"
  shows "migrateComponent ad d snap n k c
     = (Log (''Starting migration of '' @ c) # evc
          @ [Log (''Error processing '' @ c @ '': '' @ errorMessage e)], Inl e)"
  using assms by (simp add: migrateComponent_def catchComponent_def)

lemma migrateComponent_succeeds:
  assumes "getSourceData ad (source_type d) (source_instanceInfo d) snap c = (evc, Inr sd)"
  shows "migrateComponent ad d snap n k c
     = (Log (''Starting migration of '' @ c) # evc
          @ [Log (''Processing '' @ c @ '' ('' @ showNat (k + 1) @ ''/'' @ showNat n @ '')''),
             Log (''Creating '' @ c @ '' in target instance ''
                  @ subdomain (target_instanceInfo d)),
             UpdateProgress (of_nat (k + 1) / of_nat n * 100)], Inr (k + 1))"
  using assms by (simp add: migrateComponent_def catchComponent_def)

lemma migrateComponent_ignoredItems_fails:
  assumes "getSourceData ad (ij_source_type d) (ij_source_instanceInfo d) snap c = (evc, Inl e)"
  shows "migrateComponent_ignoredItems ad d snap n k c
     = (Log (''Starting migration of '' @ c) # evc
          @ [Log (''Error processing '' @ c @ '': '' @ errorMessage e)], Inl e)"
  using assms by (simp add: migrateComponent_ignoredItems_def catchComponent_def)

lemma migrateComponent_ignoredItems_succeeds:
  assumes "getSourceData ad (ij_source_type d) (ij_source_instanceInfo d) snap c = (evc, Inr sd)"
  shows "migrateComponent_ignoredItems ad d snap n k c
     = (Log (''Starting migration of '' @ c) # evc
          @ [Log (''Creating '' @ c @ '' in target instance ''
                  @ subdomain (ij_target_instanceInfo d)),
             UpdateProgress (of_nat (k + 1) / of_nat n * 100)], Inr (k + 1))"
  using assms by (simp add: migrateComponent_ignoredItems_def catchComponent_def)

text \<open>
  What the two loop bodies have in common: a body that returns has advanced the counter
  by one and reported the new counter over \<open>n\<close>, as a percentage, once; a body that throws
  has reported nothing. The loop then reports the counters \<open>k + 1, k + 2, ...\<close> in turn,
  one per component that succeeded.
\<close>

lemma migrateLoop_progress:
  assumes step: "\<And>k c ev r. body k c = (ev, r) \<Longrightarrow>
      (case r of
         Inr k' \<Rightarrow> k' = k + 1 \<and> progressReports ev = [of_nat (k + 1) / of_nat n * 100]
       | Inl e \<Rightarrow> progressReports ev = [])"
  shows "migrateLoop body cs k = (ev, r) \<Longrightarrow>
     \<exists>j\<le>length cs.
        progressReports ev = map (\<lambda>i. of_nat i / of_nat n * 100) [Suc k..<Suc (k + j)]
        \<and> (case r of Inr k' \<Rightarrow> j = length cs \<and> k' = k + j | Inl e \<Rightarrow> j < length cs)"
proof (induction cs arbitrary: k ev r)
  case Nil
  then show ?case by auto
next
  case (Cons c cs)
  obtain ev1 r1 where b: "body k c = (ev1, r1)" by (cases "body k c")
  show ?case
  proof (cases r1)
    case (Inl e)
    with b Cons.prems step [OF b] show ?thesis
      by (intro exI [of _ 0]) auto
  next
    case (Inr k1)
    with step [OF b] have k1: "k1 = k + 1"
      and p1: "progressReports ev1 = [of_nat (k + 1) / of_nat n * 100]"
      by auto
    obtain ev2 r2 where l: "migrateLoop body cs k1 = (ev2, r2)"
      by (cases "migrateLoop body cs k1")
    from Cons.IH [OF l] obtain j where j: "j \<le> length cs"
      and p2: "progressReports ev2
          = map (\<lambda>i. of_nat i / of_nat n * 100) [Suc k1..<Suc (k1 + j)]"
      and r2: "(case r2 of Inr k' \<Rightarrow> j = length cs \<and> k' = k1 + j | Inl e \<Rightarrow> j < length cs)"
      by blast
    from b Inr l Cons.prems have ev: "ev = ev1 @ ev2" and r: "r = r2" by auto
    have "progressReports ev
        = map (\<lambda>i. of_nat i / of_nat n * 100) [Suc k..<Suc (k + Suc j)]"
      unfolding ev progressReports_append p1 p2 k1
      by (simp add: upt_conv_Cons)
    moreover have "(case r of Inr k' \<Rightarrow> Suc j = length (c # cs) \<and> k' = k + Suc j
                    | Inl e \<Rightarrow> Suc j < length (c # cs))"
      using r2 unfolding r k1 by (auto split: sum.splits)
    ultimately show ?thesis using j by (intro exI [of _ "Suc j"]) simp
  qed
qed

lemma migrateComponent_reports:
  "migrateComponent ad d snap n k c = (ev, r) \<Longrightarrow>
     (case r of
        Inr k' \<Rightarrow> k' = k + 1 \<and> progressReports ev = [of_nat (k + 1) / of_nat n * 100]
      | Inl e \<Rightarrow> progressReports ev = [])"
proof -
  assume a: "migrateComponent ad d snap n k c = (ev, r)"
  obtain evc rc where g: "getSourceData ad (source_type d) (source_instanceInfo d) snap c = (evc, rc)"
    by (cases "getSourceData ad (source_type d) (source_instanceInfo d) snap c")
  note lg = getSourceData_logs_only [OF g]
  show ?thesis
  proof (cases rc)
    case (Inl e)
    with a g lg migrateComponent_fails [of ad d snap c evc e n k] show ?thesis
      by (auto simp: progressReports_append)
  next
    case (Inr sd)
    with a g lg migrateComponent_succeeds [of ad d snap c evc sd n k] show ?thesis
      by (auto simp: progressReports_append)
  qed
qed

lemma migrateComponent_ignoredItems_reports:
  "migrateComponent_ignoredItems ad d snap n k c = (ev, r) \<Longrightarrow>
     (case r of
        Inr k' \<Rightarrow> k' = k + 1 \<and> progressReports ev = [of_nat (k + 1) / of_nat n * 100]
      | Inl e \<Rightarrow> progressReports ev = [])"
proof -
  assume a: "migrateComponent_ignoredItems ad d snap n k c = (ev, r)"
  obtain evc rc where g:
    "getSourceData ad (ij_source_type d) (ij_source_instanceInfo d) snap c = (evc, rc)"
    by (cases "getSourceData ad (ij_source_type d) (ij_source_instanceInfo d) snap c")
  note lg = getSourceData_logs_only [OF g]
  show ?thesis
  proof (cases rc)
    case (Inl e)
    with a g lg migrateComponent_ignoredItems_fails [of ad d snap c evc e n k] show ?thesis
      by (auto simp: progressReports_append)
  next
    case (Inr sd)
    with a g lg migrateComponent_ignoredItems_succeeds [of ad d snap c evc sd n k] show ?thesis
      by (auto simp: progressReports_append)
  qed
qed

lemma validationBlock_logs_only:
  "validationBlock ad ty sid cs = (ev, r) \<Longrightarrow> progressReports ev = [] \<and> startedSteps ev = []"
  by (auto simp: validationBlock_def split: option.splits if_splits sum.splits)

section \<open>Validation comes first\<close>

lemma queueProcessor_validation_fails:
  assumes "validationBlock ad (source_type d) (source_snapshotId d) (job_components d)
      = (ev, Inl e)"
  shows "queueProcessor ad d
     = \<lparr>trace = Log (''Initializing migration job at tmp/'' @ job_id d) # ev
          @ [Log (''Fatal error in migration job: '' @ errorMessage e)],
        jobData = d, result = Inl e\<rparr>"
  using assms by (simp add: queueProcessor_def)

lemma queueProcessor_ignoredItems_validation_fails:
  assumes "validationBlock ad (ij_source_type d) (ij_source_snapshotId d) MIGRATION_ORDER
      = (ev, Inl e)"
  shows "queueProcessor_ignoredItems ad d
     = \<lparr>trace = Log (''Initializing migration job at tmp/'' @ ij_jobId d) # ev
          @ [Log (''Fatal error in migration job: '' @ errorMessage e)],
        jobData = d, result = Inl e\<rparr>"
  using assms by (simp add: queueProcessor_ignoredItems_def)

lemma validationBlock_snapshot:
  assumes "sid \<noteq> []"
  shows "validationBlock ad snapshot (Some sid) cs =
    (case fetchSnapshotFromConvex ad sid of
       None \<Rightarrow>
         ([Log (''Fetching snapshot '' @ sid)],
          Inl (Error (''Snapshot '' @ sid @ '' not found'')))
     | Some s \<Rightarrow>
         (case validateSnapshot (Some s) cs of
            Inl e \<Rightarrow>
              ([Log (''Fetching snapshot '' @ sid),
                Log (''Validating snapshot '' @ snap_name s)], Inl e)
          | Inr _ \<Rightarrow>
              ([Log (''Fetching snapshot '' @ sid),
                Log (''Validating snapshot '' @ snap_name s),
                Log ''Snapshot validation successful''], Inr (Some s))))"
  using assms by (simp add: validationBlock_def)

lemma validationBlock_no_id:
  assumes "sid = None \<or> sid = Some []"
  shows "validationBlock ad ty sid cs = ([], Inr None)"
  using assms by (auto simp: validationBlock_def)

lemma queueProcessor_trace_after_validation:
  assumes "validationBlock ad (source_type d) (source_snapshotId d) (job_components d)
      = (ev0, Inr snap)"
  shows "\<exists>rest. trace (queueProcessor ad d)
      = Log (''Initializing migration job at tmp/'' @ job_id d) # ev0 @ rest"
  using assms by (auto simp: queueProcessor_def Let_def split: prod.splits sum.splits)

lemma queueProcessor_ignoredItems_trace_after_validation:
  assumes "validationBlock ad (ij_source_type d) (ij_source_snapshotId d) MIGRATION_ORDER
      = (ev0, Inr snap)"
  shows "\<exists>rest. trace (queueProcessor_ignoredItems ad d)
      = Log (''Initializing migration job at tmp/'' @ ij_jobId d) # ev0 @ rest"
  using assms by (auto simp: queueProcessor_ignoredItems_def Let_def split: prod.splits sum.splits)

text \<open>
  The components revision on a job whose source type is snapshot and whose snapshot id
  is present and not empty: the three ways through the validation block.
\<close>

lemma queueProcessor_snapshot_job:
  assumes "sid \<noteq> []" and "source_type d = snapshot" and "source_snapshotId d = Some sid"
  shows "(fetchSnapshotFromConvex ad sid = None \<longrightarrow>
            queueProcessor ad d
              = \<lparr>trace = [Log (''Initializing migration job at tmp/'' @ job_id d),
                          Log (''Fetching snapshot '' @ sid),
                          Log (''Fatal error in migration job: Snapshot '' @ sid @ '' not found'')],
                 jobData = d,
                 result = Inl (Error (''Snapshot '' @ sid @ '' not found''))\<rparr>)
     \<and> (\<forall>s e. fetchSnapshotFromConvex ad sid = Some s
            \<and> validateSnapshot (Some s) (job_components d) = Inl e \<longrightarrow>
            queueProcessor ad d
              = \<lparr>trace = [Log (''Initializing migration job at tmp/'' @ job_id d),
                          Log (''Fetching snapshot '' @ sid),
                          Log (''Validating snapshot '' @ snap_name s),
                          Log (''Fatal error in migration job: '' @ errorMessage e)],
                 jobData = d, result = Inl e\<rparr>)
     \<and> (\<forall>s. fetchSnapshotFromConvex ad sid = Some s
            \<and> validateSnapshot (Some s) (job_components d) = Inr () \<longrightarrow>
            take 4 (trace (queueProcessor ad d))
              = [Log (''Initializing migration job at tmp/'' @ job_id d),
                 Log (''Fetching snapshot '' @ sid),
                 Log (''Validating snapshot '' @ snap_name s),
                 Log ''Snapshot validation successful''])"
proof (intro conjI allI impI)
  note vs = validationBlock_snapshot [OF assms(1), of ad "job_components d"]
  {
    assume "fetchSnapshotFromConvex ad sid = None"
    with vs assms have "validationBlock ad (source_type d) (source_snapshotId d)
        (job_components d)
      = ([Log (''Fetching snapshot '' @ sid)], Inl (Error (''Snapshot '' @ sid @ '' not found'')))"
      by simp
    then show "queueProcessor ad d
        = \<lparr>trace = [Log (''Initializing migration job at tmp/'' @ job_id d),
                    Log (''Fetching snapshot '' @ sid),
                    Log (''Fatal error in migration job: Snapshot '' @ sid @ '' not found'')],
           jobData = d,
           result = Inl (Error (''Snapshot '' @ sid @ '' not found''))\<rparr>"
      by (simp add: queueProcessor_validation_fails)
  }
  {
    fix s e
    assume "fetchSnapshotFromConvex ad sid = Some s
        \<and> validateSnapshot (Some s) (job_components d) = Inl e"
    with vs assms have "validationBlock ad (source_type d) (source_snapshotId d)
        (job_components d)
      = ([Log (''Fetching snapshot '' @ sid), Log (''Validating snapshot '' @ snap_name s)],
         Inl e)"
      by simp
    then show "queueProcessor ad d
        = \<lparr>trace = [Log (''Initializing migration job at tmp/'' @ job_id d),
                    Log (''Fetching snapshot '' @ sid),
                    Log (''Validating snapshot '' @ snap_name s),
                    Log (''Fatal error in migration job: '' @ errorMessage e)],
           jobData = d, result = Inl e\<rparr>"
      by (simp add: queueProcessor_validation_fails)
  }
  fix s
  assume "fetchSnapshotFromConvex ad sid = Some s
      \<and> validateSnapshot (Some s) (job_components d) = Inr ()"
  with vs assms have "validationBlock ad (source_type d) (source_snapshotId d)
      (job_components d)
    = ([Log (''Fetching snapshot '' @ sid), Log (''Validating snapshot '' @ snap_name s),
        Log ''Snapshot validation successful''], Inr (Some s))"
    by simp
  from queueProcessor_trace_after_validation [OF this]
  show "take 4 (trace (queueProcessor ad d))
      = [Log (''Initializing migration job at tmp/'' @ job_id d),
         Log (''Fetching snapshot '' @ sid),
         Log (''Validating snapshot '' @ snap_name s),
         Log ''Snapshot validation successful'']"
    by auto
qed

text \<open>The same for the ignoredItems revision, which validates against the catalog.\<close>

lemma queueProcessor_ignoredItems_snapshot_job:
  assumes "sid \<noteq> []" and "ij_source_type d = snapshot" and "ij_source_snapshotId d = Some sid"
  shows "(fetchSnapshotFromConvex ad sid = None \<longrightarrow>
            queueProcessor_ignoredItems ad d
              = \<lparr>trace = [Log (''Initializing migration job at tmp/'' @ ij_jobId d),
                          Log (''Fetching snapshot '' @ sid),
                          Log (''Fatal error in migration job: Snapshot '' @ sid @ '' not found'')],
                 jobData = d,
                 result = Inl (Error (''Snapshot '' @ sid @ '' not found''))\<rparr>)
     \<and> (\<forall>s e. fetchSnapshotFromConvex ad sid = Some s
            \<and> validateSnapshot (Some s) MIGRATION_ORDER = Inl e \<longrightarrow>
            queueProcessor_ignoredItems ad d
              = \<lparr>trace = [Log (''Initializing migration job at tmp/'' @ ij_jobId d),
                          Log (''Fetching snapshot '' @ sid),
                          Log (''Validating snapshot '' @ snap_name s),
                          Log (''Fatal error in migration job: '' @ errorMessage e)],
                 jobData = d, result = Inl e\<rparr>)
     \<and> (\<forall>s. fetchSnapshotFromConvex ad sid = Some s
            \<and> validateSnapshot (Some s) MIGRATION_ORDER = Inr () \<longrightarrow>
            take 4 (trace (queueProcessor_ignoredItems ad d))
              = [Log (''Initializing migration job at tmp/'' @ ij_jobId d),
                 Log (''Fetching snapshot '' @ sid),
                 Log (''Validating snapshot '' @ snap_name s),
                 Log ''Snapshot validation successful''])"
proof (intro conjI allI impI)
  note vs = validationBlock_snapshot [OF assms(1), of ad MIGRATION_ORDER]
  {
    assume "fetchSnapshotFromConvex ad sid = None"
    with vs assms have "validationBlock ad (ij_source_type d) (ij_source_snapshotId d)
        MIGRATION_ORDER
      = ([Log (''Fetching snapshot '' @ sid)], Inl (Error (''Snapshot '' @ sid @ '' not found'')))"
      by simp
    then show "queueProcessor_ignoredItems ad d
        = \<lparr>trace = [Log (''Initializing migration job at tmp/'' @ ij_jobId d),
                    Log (''Fetching snapshot '' @ sid),
                    Log (''Fatal error in migration job: Snapshot '' @ sid @ '' not found'')],
           jobData = d,
           result = Inl (Error (''Snapshot '' @ sid @ '' not found''))\<rparr>"
      by (simp add: queueProcessor_ignoredItems_validation_fails)
  }
  {
    fix s e
    assume "fetchSnapshotFromConvex ad sid = Some s
        \<and> validateSnapshot (Some s) MIGRATION_ORDER = Inl e"
    with vs assms have "validationBlock ad (ij_source_type d) (ij_source_snapshotId d)
        MIGRATION_ORDER
      = ([Log (''Fetching snapshot '' @ sid), Log (''Validating snapshot '' @ snap_name s)],
         Inl e)"
      by simp
    then show "queueProcessor_ignoredItems ad d
        = \<lparr>trace = [Log (''Initializing migration job at tmp/'' @ ij_jobId d),
                    Log (''Fetching snapshot '' @ sid),
                    Log (''Validating snapshot '' @ snap_name s),
                    Log (''Fatal error in migration job: '' @ errorMessage e)],
           jobData = d, result = Inl e\<rparr>"
      by (simp add: queueProcessor_ignoredItems_validation_fails)
  }
  fix s
  assume "fetchSnapshotFromConvex ad sid = Some s
      \<and> validateSnapshot (Some s) MIGRATION_ORDER = Inr ()"
  with vs assms have "validationBlock ad (ij_source_type d) (ij_source_snapshotId d)
      MIGRATION_ORDER
    = ([Log (''Fetching snapshot '' @ sid), Log (''Validating snapshot '' @ snap_name s),
        Log ''Snapshot validation successful''], Inr (Some s))"
    by simp
  from queueProcessor_ignoredItems_trace_after_validation [OF this]
  show "take 4 (trace (queueProcessor_ignoredItems ad d))
      = [Log (''Initializing migration job at tmp/'' @ ij_jobId d),
         Log (''Fetching snapshot '' @ sid),
         Log (''Validating snapshot '' @ snap_name s),
         Log ''Snapshot validation successful'']"
    by auto
qed

text \<open>
  A job whose source type is snapshot and whose snapshot id is absent or empty runs as
  the same job with a live source does: same events, same outcome.
\<close>

lemma queueProcessor_snapshot_type_without_id:
  assumes "source_snapshotId d = None \<or> source_snapshotId d = Some []"
  shows "trace (queueProcessor ad d) = trace (queueProcessor ad (d\<lparr>source_type := live\<rparr>))
     \<and> result (queueProcessor ad d) = result (queueProcessor ad (d\<lparr>source_type := live\<rparr>))"
proof -
  have v: "validationBlock ad ty (source_snapshotId d) (job_components d) = ([], Inr None)"
    for ty
    by (rule validationBlock_no_id [OF assms])
  have b: "migrateComponent ad (d\<lparr>job_components := cs\<rparr>) None n
      = migrateComponent ad (d\<lparr>source_type := live, job_components := cs\<rparr>) None n" for cs n
    by (intro ext) (simp add: migrateComponent_def getSourceData_def)
  show ?thesis
    by (simp add: queueProcessor_def v b Let_def split: prod.splits sum.splits)
qed

lemma queueProcessor_ignoredItems_snapshot_type_without_id:
  assumes "ij_source_snapshotId d = None \<or> ij_source_snapshotId d = Some []"
  shows "trace (queueProcessor_ignoredItems ad d)
       = trace (queueProcessor_ignoredItems ad (d\<lparr>ij_source_type := live\<rparr>))
     \<and> result (queueProcessor_ignoredItems ad d)
       = result (queueProcessor_ignoredItems ad (d\<lparr>ij_source_type := live\<rparr>))"
proof -
  have v: "validationBlock ad ty (ij_source_snapshotId d) cs = ([], Inr None)" for ty cs
    by (rule validationBlock_no_id [OF assms])
  have b: "migrateComponent_ignoredItems ad d None n
      = migrateComponent_ignoredItems ad (d\<lparr>ij_source_type := live\<rparr>) None n" for n
    by (intro ext) (simp add: migrateComponent_ignoredItems_def getSourceData_def)
  show ?thesis
    by (simp add: queueProcessor_ignoredItems_def v b Let_def split: prod.splits sum.splits)
qed

text \<open>
  C3 (as amended). In both revisions, for a job whose source type is snapshot and whose
  snapshot id is present and not empty: if the id does not resolve, the job fails with
  the not found error and its whole trace is the initial line, the fetching line and the
  fatal line, so no component is started and no progress is reported; if the validator
  throws, the job fails with that error and its trace holds the validating line and the
  fatal line besides; if the validator accepts, the trace opens with the initial line
  and the three validation lines, so every component event comes after them. The
  components revision validates against the requested components, the ignoredItems
  revision against the catalog. A job of type snapshot whose snapshot id is absent or
  empty is not validated: it runs as the same job with a live source.
\<close>

theorem snapshot_with_id_validated_before_any_component:
  assumes "sid \<noteq> []"
  shows "(source_type d = snapshot \<and> source_snapshotId d = Some sid \<longrightarrow>
           (fetchSnapshotFromConvex ad sid = None \<longrightarrow>
              queueProcessor ad d
                = \<lparr>trace = [Log (''Initializing migration job at tmp/'' @ job_id d),
                            Log (''Fetching snapshot '' @ sid),
                            Log (''Fatal error in migration job: Snapshot '' @ sid
                                 @ '' not found'')],
                   jobData = d,
                   result = Inl (Error (''Snapshot '' @ sid @ '' not found''))\<rparr>)
         \<and> (\<forall>s e. fetchSnapshotFromConvex ad sid = Some s
              \<and> validateSnapshot (Some s) (job_components d) = Inl e \<longrightarrow>
              queueProcessor ad d
                = \<lparr>trace = [Log (''Initializing migration job at tmp/'' @ job_id d),
                            Log (''Fetching snapshot '' @ sid),
                            Log (''Validating snapshot '' @ snap_name s),
                            Log (''Fatal error in migration job: '' @ errorMessage e)],
                   jobData = d, result = Inl e\<rparr>)
         \<and> (\<forall>s. fetchSnapshotFromConvex ad sid = Some s
              \<and> validateSnapshot (Some s) (job_components d) = Inr () \<longrightarrow>
              take 4 (trace (queueProcessor ad d))
                = [Log (''Initializing migration job at tmp/'' @ job_id d),
                   Log (''Fetching snapshot '' @ sid),
                   Log (''Validating snapshot '' @ snap_name s),
                   Log ''Snapshot validation successful'']))
     \<and> (ij_source_type d' = snapshot \<and> ij_source_snapshotId d' = Some sid \<longrightarrow>
           (fetchSnapshotFromConvex ad sid = None \<longrightarrow>
              queueProcessor_ignoredItems ad d'
                = \<lparr>trace = [Log (''Initializing migration job at tmp/'' @ ij_jobId d'),
                            Log (''Fetching snapshot '' @ sid),
                            Log (''Fatal error in migration job: Snapshot '' @ sid
                                 @ '' not found'')],
                   jobData = d',
                   result = Inl (Error (''Snapshot '' @ sid @ '' not found''))\<rparr>)
         \<and> (\<forall>s e. fetchSnapshotFromConvex ad sid = Some s
              \<and> validateSnapshot (Some s) MIGRATION_ORDER = Inl e \<longrightarrow>
              queueProcessor_ignoredItems ad d'
                = \<lparr>trace = [Log (''Initializing migration job at tmp/'' @ ij_jobId d'),
                            Log (''Fetching snapshot '' @ sid),
                            Log (''Validating snapshot '' @ snap_name s),
                            Log (''Fatal error in migration job: '' @ errorMessage e)],
                   jobData = d', result = Inl e\<rparr>)
         \<and> (\<forall>s. fetchSnapshotFromConvex ad sid = Some s
              \<and> validateSnapshot (Some s) MIGRATION_ORDER = Inr () \<longrightarrow>
              take 4 (trace (queueProcessor_ignoredItems ad d'))
                = [Log (''Initializing migration job at tmp/'' @ ij_jobId d'),
                   Log (''Fetching snapshot '' @ sid),
                   Log (''Validating snapshot '' @ snap_name s),
                   Log ''Snapshot validation successful'']))
     \<and> (source_snapshotId d0 = None \<or> source_snapshotId d0 = Some [] \<longrightarrow>
           trace (queueProcessor ad d0) = trace (queueProcessor ad (d0\<lparr>source_type := live\<rparr>))
         \<and> result (queueProcessor ad d0)
             = result (queueProcessor ad (d0\<lparr>source_type := live\<rparr>)))
     \<and> (ij_source_snapshotId d0' = None \<or> ij_source_snapshotId d0' = Some [] \<longrightarrow>
           trace (queueProcessor_ignoredItems ad d0')
             = trace (queueProcessor_ignoredItems ad (d0'\<lparr>ij_source_type := live\<rparr>))
         \<and> result (queueProcessor_ignoredItems ad d0')
             = result (queueProcessor_ignoredItems ad (d0'\<lparr>ij_source_type := live\<rparr>)))"
proof (intro conjI)
  show "source_type d = snapshot \<and> source_snapshotId d = Some sid \<longrightarrow>
           (fetchSnapshotFromConvex ad sid = None \<longrightarrow>
              queueProcessor ad d
                = \<lparr>trace = [Log (''Initializing migration job at tmp/'' @ job_id d),
                            Log (''Fetching snapshot '' @ sid),
                            Log (''Fatal error in migration job: Snapshot '' @ sid
                                 @ '' not found'')],
                   jobData = d,
                   result = Inl (Error (''Snapshot '' @ sid @ '' not found''))\<rparr>)
         \<and> (\<forall>s e. fetchSnapshotFromConvex ad sid = Some s
              \<and> validateSnapshot (Some s) (job_components d) = Inl e \<longrightarrow>
              queueProcessor ad d
                = \<lparr>trace = [Log (''Initializing migration job at tmp/'' @ job_id d),
                            Log (''Fetching snapshot '' @ sid),
                            Log (''Validating snapshot '' @ snap_name s),
                            Log (''Fatal error in migration job: '' @ errorMessage e)],
                   jobData = d, result = Inl e\<rparr>)
         \<and> (\<forall>s. fetchSnapshotFromConvex ad sid = Some s
              \<and> validateSnapshot (Some s) (job_components d) = Inr () \<longrightarrow>
              take 4 (trace (queueProcessor ad d))
                = [Log (''Initializing migration job at tmp/'' @ job_id d),
                   Log (''Fetching snapshot '' @ sid),
                   Log (''Validating snapshot '' @ snap_name s),
                   Log ''Snapshot validation successful''])"
    using queueProcessor_snapshot_job [OF assms, of d ad] by simp
  show "ij_source_type d' = snapshot \<and> ij_source_snapshotId d' = Some sid \<longrightarrow>
           (fetchSnapshotFromConvex ad sid = None \<longrightarrow>
              queueProcessor_ignoredItems ad d'
                = \<lparr>trace = [Log (''Initializing migration job at tmp/'' @ ij_jobId d'),
                            Log (''Fetching snapshot '' @ sid),
                            Log (''Fatal error in migration job: Snapshot '' @ sid
                                 @ '' not found'')],
                   jobData = d',
                   result = Inl (Error (''Snapshot '' @ sid @ '' not found''))\<rparr>)
         \<and> (\<forall>s e. fetchSnapshotFromConvex ad sid = Some s
              \<and> validateSnapshot (Some s) MIGRATION_ORDER = Inl e \<longrightarrow>
              queueProcessor_ignoredItems ad d'
                = \<lparr>trace = [Log (''Initializing migration job at tmp/'' @ ij_jobId d'),
                            Log (''Fetching snapshot '' @ sid),
                            Log (''Validating snapshot '' @ snap_name s),
                            Log (''Fatal error in migration job: '' @ errorMessage e)],
                   jobData = d', result = Inl e\<rparr>)
         \<and> (\<forall>s. fetchSnapshotFromConvex ad sid = Some s
              \<and> validateSnapshot (Some s) MIGRATION_ORDER = Inr () \<longrightarrow>
              take 4 (trace (queueProcessor_ignoredItems ad d'))
                = [Log (''Initializing migration job at tmp/'' @ ij_jobId d'),
                   Log (''Fetching snapshot '' @ sid),
                   Log (''Validating snapshot '' @ snap_name s),
                   Log ''Snapshot validation successful''])"
    using queueProcessor_ignoredItems_snapshot_job [OF assms, of d' ad] by simp
  show "source_snapshotId d0 = None \<or> source_snapshotId d0 = Some [] \<longrightarrow>
           trace (queueProcessor ad d0) = trace (queueProcessor ad (d0\<lparr>source_type := live\<rparr>))
         \<and> result (queueProcessor ad d0)
             = result (queueProcessor ad (d0\<lparr>source_type := live\<rparr>))"
    using queueProcessor_snapshot_type_without_id [of d0 ad] by blast
  show "ij_source_snapshotId d0' = None \<or> ij_source_snapshotId d0' = Some [] \<longrightarrow>
           trace (queueProcessor_ignoredItems ad d0')
             = trace (queueProcessor_ignoredItems ad (d0'\<lparr>ij_source_type := live\<rparr>))
         \<and> result (queueProcessor_ignoredItems ad d0')
             = result (queueProcessor_ignoredItems ad (d0'\<lparr>ij_source_type := live\<rparr>))"
    using queueProcessor_ignoredItems_snapshot_type_without_id [of d0' ad] by blast
qed

theorem snapshot_with_id_validated_before_any_component_witness:
  "queueProcessor mockAdapters (snapshotJob\<lparr>source_snapshotId := Some ''2''\<rparr>)
     = \<lparr>trace = [Log ''Initializing migration job at tmp/migration-1'',
                 Log ''Fetching snapshot 2'',
                 Log ''Fatal error in migration job: Snapshot 2 not found''],
        jobData = snapshotJob\<lparr>source_snapshotId := Some ''2''\<rparr>,
        result = Inl (Error ''Snapshot 2 not found'')\<rparr>
   \<and> take 4 (trace (queueProcessor mockAdapters snapshotJob))
     = [Log ''Initializing migration job at tmp/migration-1'',
        Log ''Fetching snapshot 1'',
        Log ''Validating snapshot Snapshot 1'',
        Log ''Snapshot validation successful'']"
proof -
  have h: "''2'' \<noteq> []" "''1'' \<noteq> []" by simp_all
  have a: "source_type (snapshotJob\<lparr>source_snapshotId := Some ''2''\<rparr>) = snapshot
      \<and> source_snapshotId (snapshotJob\<lparr>source_snapshotId := Some ''2''\<rparr>) = Some ''2''"
    "source_type snapshotJob = snapshot \<and> source_snapshotId snapshotJob = Some ''1''"
    by (simp_all add: snapshotJob_def)
  have n: "fetchSnapshotFromConvex (mockAdapters :: ZendeskCredentials Adapters) ''2'' = None"
    by (simp add: mockAdapters_def mock_fetchSnapshotFromConvex_def getProperty_def
        objectPrototypeKeys_def)
  have v: "fetchSnapshotFromConvex (mockAdapters :: ZendeskCredentials Adapters) ''1''
        = Some mockSnapshot1
      \<and> validateSnapshot (Some mockSnapshot1) (job_components snapshotJob) = Inr ()"
    by (simp add: mockAdapters_def mock_fetchSnapshotFromConvex_def getProperty_def
        objectPrototypeKeys_def validateSnapshot_def mockSnapshot1_def mockBreakdown_def
        snapshotJob_def)
  have j: "job_id (snapshotJob\<lparr>source_snapshotId := Some ''2''\<rparr>) = ''migration-1''"
    "job_id snapshotJob = ''migration-1''" "snap_name mockSnapshot1 = ''Snapshot 1''"
    by (simp_all add: snapshotJob_def mockSnapshot1_def)
  from snapshot_with_id_validated_before_any_component [OF h(1), THEN conjunct1, THEN mp,
      OF a(1), THEN conjunct1, THEN mp, OF n]
    snapshot_with_id_validated_before_any_component [OF h(2), THEN conjunct1, THEN mp,
      OF a(2), THEN conjunct2, THEN conjunct2, THEN spec, THEN mp, OF v]
  show ?thesis unfolding j by simp
qed

text \<open>
  C3 fails as stated: the job of type snapshot that gives no snapshot id resolves and
  validates nothing. It fetches both components from the live instance and completes.
\<close>

theorem snapshot_type_without_id_not_validated:
  "source_type snapshotJobWithoutId = snapshot
   \<and> source_snapshotId snapshotJobWithoutId = None
   \<and> queueProcessor mockAdapters snapshotJobWithoutId
     = \<lparr>trace =
          [Log ''Initializing migration job at tmp/migration-6'',
           Log ''Starting migration of ticket_fields'',
           Log ''Fetching ticket_fields from live instance acme'',
           Log ''Processing ticket_fields (1/2)'',
           Log ''Creating ticket_fields in target instance acme'',
           UpdateProgress 50,
           Log ''Starting migration of ticket_forms'',
           Log ''Fetching ticket_forms from live instance acme'',
           Log ''Processing ticket_forms (2/2)'',
           Log ''Creating ticket_forms in target instance acme'',
           UpdateProgress 100],
        jobData = snapshotJobWithoutId\<lparr>job_components := [''ticket_fields'', ''ticket_forms'']\<rparr>,
        result = Inr \<lparr>status = ''completed'', jobId = ''migration-6'', idMappings = []\<rparr>\<rparr>"
  by (simp add: snapshotJobWithoutId_run) (simp add: snapshotJobWithoutId_def)

section \<open>A failing component ends the job\<close>

lemma queueProcessor_loop_fails:
  assumes "validationBlock ad (source_type d) (source_snapshotId d) (job_components d)
      = (ev0, Inr snap)"
    and "migrateLoop
           (migrateComponent ad (d\<lparr>job_components := sortedComponents (job_components d)\<rparr>)
              snap (length (job_components d)))
           (sortedComponents (job_components d)) 0 = (ev, Inl e)"
  shows "queueProcessor ad d
     = \<lparr>trace = Log (''Initializing migration job at tmp/'' @ job_id d) # ev0 @ ev
          @ [Log (''Fatal error in migration job: '' @ errorMessage e)],
        jobData = d\<lparr>job_components := sortedComponents (job_components d)\<rparr>,
        result = Inl e\<rparr>"
  using assms by (simp add: queueProcessor_def Let_def)

lemma queueProcessor_ignoredItems_loop_fails:
  assumes "validationBlock ad (ij_source_type d) (ij_source_snapshotId d) MIGRATION_ORDER
      = (ev0, Inr snap)"
    and "migrateLoop (migrateComponent_ignoredItems ad d snap (length MIGRATION_ORDER))
           (componentsToMigrate (case ij_ignoredItems d of None \<Rightarrow> [] | Some xs \<Rightarrow> xs)) 0
         = (ev, Inl e)"
  shows "queueProcessor_ignoredItems ad d
     = \<lparr>trace = Log (''Initializing migration job at tmp/'' @ ij_jobId d) # ev0 @ ev
          @ [Log (''Fatal error in migration job: '' @ errorMessage e)],
        jobData = d, result = Inl e\<rparr>"
  using assms by (simp add: queueProcessor_ignoredItems_def Let_def)

text \<open>
  C4. In both revisions: let validation pass, let the ordered list be \<open>pre @ c # post\<close>,
  let every component of \<open>pre\<close> succeed, and let getting the source data of \<open>c\<close> throw \<open>e\<close>.
  Then the job fails with \<open>e\<close>; its trace is the trace up to the start of \<open>c\<close>, the events
  of the failed fetch, the line naming \<open>c\<close> and the message of \<open>e\<close>, and the fatal line, in
  this order. No component of \<open>post\<close> contributes an event.
\<close>

theorem component_error_aborts_job:
  "(validationBlock ad (source_type d) (source_snapshotId d) (job_components d)
        = (ev0, Inr snap)
      \<and> sortedComponents (job_components d) = pre @ c # post
      \<and> migrateLoop
           (migrateComponent ad (d\<lparr>job_components := sortedComponents (job_components d)\<rparr>)
              snap (length (job_components d))) pre 0 = (evp, Inr k)
      \<and> getSourceData ad (source_type d) (source_instanceInfo d) snap c = (evc, Inl e)
    \<longrightarrow>
      queueProcessor ad d
        = \<lparr>trace = Log (''Initializing migration job at tmp/'' @ job_id d) # ev0 @ evp
              @ Log (''Starting migration of '' @ c) # evc
              @ [Log (''Error processing '' @ c @ '': '' @ errorMessage e),
                 Log (''Fatal error in migration job: '' @ errorMessage e)],
           jobData = d\<lparr>job_components := sortedComponents (job_components d)\<rparr>,
           result = Inl e\<rparr>)
   \<and> (validationBlock ad (ij_source_type d') (ij_source_snapshotId d') MIGRATION_ORDER
        = (ev0', Inr snap')
      \<and> componentsToMigrate (case ij_ignoredItems d' of None \<Rightarrow> [] | Some xs \<Rightarrow> xs)
        = pre' @ c' # post'
      \<and> migrateLoop (migrateComponent_ignoredItems ad d' snap' (length MIGRATION_ORDER)) pre' 0
        = (evp', Inr k')
      \<and> getSourceData ad (ij_source_type d') (ij_source_instanceInfo d') snap' c' = (evc', Inl e')
    \<longrightarrow>
      queueProcessor_ignoredItems ad d'
        = \<lparr>trace = Log (''Initializing migration job at tmp/'' @ ij_jobId d') # ev0' @ evp'
              @ Log (''Starting migration of '' @ c') # evc'
              @ [Log (''Error processing '' @ c' @ '': '' @ errorMessage e'),
                 Log (''Fatal error in migration job: '' @ errorMessage e')],
           jobData = d', result = Inl e'\<rparr>)"
proof (intro conjI impI)
  let ?d = "d\<lparr>job_components := sortedComponents (job_components d)\<rparr>"
  let ?n = "length (job_components d)"
  assume h: "validationBlock ad (source_type d) (source_snapshotId d) (job_components d)
        = (ev0, Inr snap)
      \<and> sortedComponents (job_components d) = pre @ c # post
      \<and> migrateLoop (migrateComponent ad ?d snap ?n) pre 0 = (evp, Inr k)
      \<and> getSourceData ad (source_type d) (source_instanceInfo d) snap c = (evc, Inl e)"
  from h have h1: "validationBlock ad (source_type d) (source_snapshotId d) (job_components d)
        = (ev0, Inr snap)"
    and h2: "sortedComponents (job_components d) = pre @ c # post"
    and h3: "migrateLoop (migrateComponent ad ?d snap ?n) pre 0 = (evp, Inr k)"
    and h4: "getSourceData ad (source_type d) (source_instanceInfo d) snap c = (evc, Inl e)"
    by blast+
  from h4 have g: "getSourceData ad (source_type ?d) (source_instanceInfo ?d) snap c
      = (evc, Inl e)"
    by simp
  have loop: "migrateLoop (migrateComponent ad ?d snap ?n) (pre @ c # post) 0
      = (evp @ Log (''Starting migration of '' @ c) # evc
           @ [Log (''Error processing '' @ c @ '': '' @ errorMessage e)], Inl e)"
    by (rule migrateLoop_abort [OF h3 migrateComponent_fails [OF g]])
  show "queueProcessor ad d
        = \<lparr>trace = Log (''Initializing migration job at tmp/'' @ job_id d) # ev0 @ evp
              @ Log (''Starting migration of '' @ c) # evc
              @ [Log (''Error processing '' @ c @ '': '' @ errorMessage e),
                 Log (''Fatal error in migration job: '' @ errorMessage e)],
           jobData = ?d, result = Inl e\<rparr>"
    by (simp add: queueProcessor_loop_fails [OF h1 loop [folded h2]])
next
  let ?cs = "componentsToMigrate (case ij_ignoredItems d' of None \<Rightarrow> [] | Some xs \<Rightarrow> xs)"
  let ?n = "length MIGRATION_ORDER"
  assume h: "validationBlock ad (ij_source_type d') (ij_source_snapshotId d') MIGRATION_ORDER
        = (ev0', Inr snap')
      \<and> ?cs = pre' @ c' # post'
      \<and> migrateLoop (migrateComponent_ignoredItems ad d' snap' ?n) pre' 0 = (evp', Inr k')
      \<and> getSourceData ad (ij_source_type d') (ij_source_instanceInfo d') snap' c' = (evc', Inl e')"
  from h have h1: "validationBlock ad (ij_source_type d') (ij_source_snapshotId d')
        MIGRATION_ORDER = (ev0', Inr snap')"
    and h2: "?cs = pre' @ c' # post'"
    and h3: "migrateLoop (migrateComponent_ignoredItems ad d' snap' ?n) pre' 0 = (evp', Inr k')"
    and g: "getSourceData ad (ij_source_type d') (ij_source_instanceInfo d') snap' c'
        = (evc', Inl e')"
    by blast+
  have loop: "migrateLoop (migrateComponent_ignoredItems ad d' snap' ?n) (pre' @ c' # post') 0
      = (evp' @ Log (''Starting migration of '' @ c') # evc'
           @ [Log (''Error processing '' @ c' @ '': '' @ errorMessage e')], Inl e')"
    by (rule migrateLoop_abort [OF h3 migrateComponent_ignoredItems_fails [OF g]])
  show "queueProcessor_ignoredItems ad d'
        = \<lparr>trace = Log (''Initializing migration job at tmp/'' @ ij_jobId d') # ev0' @ evp'
              @ Log (''Starting migration of '' @ c') # evc'
              @ [Log (''Error processing '' @ c' @ '': '' @ errorMessage e'),
                 Log (''Fatal error in migration job: '' @ errorMessage e')],
           jobData = d', result = Inl e'\<rparr>"
    by (simp add: queueProcessor_ignoredItems_loop_fails [OF h1 loop [folded h2]])
qed

theorem component_error_aborts_job_witness:
  "queueProcessor failingAdapters threeComponentJob
     = \<lparr>trace =
          [Log ''Initializing migration job at tmp/migration-5'',
           Log ''Starting migration of groups'',
           Log ''Fetching groups from live instance acme'',
           Log ''Processing groups (1/3)'',
           Log ''Creating groups in target instance acme'',
           UpdateProgress (100 / 3),
           Log ''Starting migration of macros'',
           Log ''Fetching macros from live instance acme'',
           Log ''Error processing macros: rate limited'',
           Log ''Fatal error in migration job: rate limited''],
        jobData = threeComponentJob\<lparr>job_components := [''groups'', ''macros'', ''views'']\<rparr>,
        result = Inl (Error ''rate limited'')\<rparr>
   \<and> queueProcessor_ignoredItems failingAdapters (ignoredItemsJob allButGroupsMacrosViews)
     = \<lparr>trace =
          [Log ''Initializing migration job at tmp/migration-3'',
           Log ''Starting migration of groups'',
           Log ''Fetching groups from live instance acme'',
           Log ''Creating groups in target instance acme'',
           UpdateProgress (50 / 7),
           Log ''Starting migration of macros'',
           Log ''Fetching macros from live instance acme'',
           Log ''Error processing macros: rate limited'',
           Log ''Fatal error in migration job: rate limited''],
        jobData = ignoredItemsJob allButGroupsMacrosViews,
        result = Inl (Error ''rate limited'')\<rparr>"
proof -
  note jobDefs = threeComponentJob_def ignoredItemsJob_def allButGroupsMacrosViews_def
  have a: "validationBlock failingAdapters (source_type threeComponentJob)
        (source_snapshotId threeComponentJob) (job_components threeComponentJob)
        = ([], Inr None)
      \<and> sortedComponents (job_components threeComponentJob) = [''groups''] @ ''macros'' # [''views'']
      \<and> migrateLoop
           (migrateComponent failingAdapters
              (threeComponentJob\<lparr>job_components :=
                 sortedComponents (job_components threeComponentJob)\<rparr>)
              None (length (job_components threeComponentJob))) [''groups''] 0
        = ([Log ''Starting migration of groups'',
            Log ''Fetching groups from live instance acme'',
            Log ''Processing groups (1/3)'',
            Log ''Creating groups in target instance acme'',
            UpdateProgress (100 / 3)], Inr 1)
      \<and> getSourceData failingAdapters (source_type threeComponentJob)
           (source_instanceInfo threeComponentJob) None ''macros''
        = ([Log ''Fetching macros from live instance acme''], Inl (Error ''rate limited''))"
    by (simp add: evalDefs jobDefs)
  have b: "validationBlock failingAdapters
        (ij_source_type (ignoredItemsJob allButGroupsMacrosViews))
        (ij_source_snapshotId (ignoredItemsJob allButGroupsMacrosViews)) MIGRATION_ORDER
        = ([], Inr None)
      \<and> componentsToMigrate
           (case ij_ignoredItems (ignoredItemsJob allButGroupsMacrosViews) of
              None \<Rightarrow> [] | Some xs \<Rightarrow> xs)
        = [''groups''] @ ''macros'' # [''views'']
      \<and> migrateLoop
           (migrateComponent_ignoredItems failingAdapters
              (ignoredItemsJob allButGroupsMacrosViews) None (length MIGRATION_ORDER))
           [''groups''] 0
        = ([Log ''Starting migration of groups'',
            Log ''Fetching groups from live instance acme'',
            Log ''Creating groups in target instance acme'',
            UpdateProgress (50 / 7)], Inr 1)
      \<and> getSourceData failingAdapters
           (ij_source_type (ignoredItemsJob allButGroupsMacrosViews))
           (ij_source_instanceInfo (ignoredItemsJob allButGroupsMacrosViews)) None ''macros''
        = ([Log ''Fetching macros from live instance acme''], Inl (Error ''rate limited''))"
    by (simp add: evalDefs jobDefs)
  have s: "sortedComponents (job_components threeComponentJob) = [''groups'', ''macros'', ''views'']"
    by (simp add: evalDefs jobDefs)
  from component_error_aborts_job [THEN conjunct1, rule_format, OF a]
    component_error_aborts_job [THEN conjunct2, rule_format, OF b]
  show ?thesis unfolding s by (simp add: threeComponentJob_def ignoredItemsJob_def)
qed

section \<open>What a completed job returns\<close>

text \<open>
  C5 (as amended). In the components revision, a job that completes returns the status
  completed, its own id and an empty list of id mappings: the run creates no target
  record and records no mapping.
\<close>

theorem completed_result_has_empty_idMappings:
  "result (queueProcessor ad d) = Inr r \<Longrightarrow>
     r = \<lparr>status = ''completed'', jobId = job_id d, idMappings = []\<rparr>"
  by (auto simp: queueProcessor_def Let_def split: prod.splits sum.splits)

theorem completed_result_has_empty_idMappings_witness:
  "result (queueProcessor mockAdapters snapshotJob)
     = Inr \<lparr>status = ''completed'', jobId = ''migration-1'', idMappings = []\<rparr>"
proof -
  have r: "result (queueProcessor mockAdapters snapshotJob)
      = Inr \<lparr>status = ''completed'', jobId = ''migration-1'', idMappings = []\<rparr>"
    by (simp add: snapshotJob_run)
  from completed_result_has_empty_idMappings [OF r] show ?thesis
    unfolding r by simp
qed

text \<open>
  C5 fails as stated: the job on the mock snapshot migrates ticket fields and ticket
  forms, reports 50 and 100 percent and completes; the snapshot counts ten records of
  the one and one of the other; the result holds no mapping.
\<close>

theorem completed_job_without_mappings:
  "result (queueProcessor mockAdapters snapshotJob)
     = Inr \<lparr>status = ''completed'', jobId = ''migration-1'', idMappings = []\<rparr>
   \<and> progressReports (trace (queueProcessor mockAdapters snapshotJob)) = [50, 100]
   \<and> startedSteps (trace (queueProcessor mockAdapters snapshotJob))
       = [''Starting migration of ticket_fields'', ''Starting migration of ticket_forms'']
   \<and> map_option bd_count (mockBreakdown ''ticket_fields'') = Some ''10''
   \<and> map_option bd_count (mockBreakdown ''ticket_forms'') = Some ''1''"
  by (simp add: snapshotJob_run mockBreakdown_def)

section \<open>The sort works on the job's own array\<close>

text \<open>
  C10. In the components revision the sort is in place. When validation passes (or
  there is none to do), the job data leaves the run with its components sorted, whether
  the loop then succeeds or throws; when validation throws, the sort is not reached and
  the job data is as the caller gave it. Sorting can change the order: macros, bogus,
  groups is not in sorted order.
\<close>

theorem job_components_sorted_in_place:
  "(validationBlock ad (source_type d) (source_snapshotId d) (job_components d)
        = (ev, Inr snap) \<longrightarrow>
      jobData (queueProcessor ad d)
        = d\<lparr>job_components := sortedComponents (job_components d)\<rparr>)
   \<and> (validationBlock ad (source_type d) (source_snapshotId d) (job_components d)
        = (ev, Inl e) \<longrightarrow>
      jobData (queueProcessor ad d) = d)
   \<and> sortedComponents [''macros'', ''bogus'', ''groups''] \<noteq> [''macros'', ''bogus'', ''groups'']"
proof (intro conjI impI)
  assume "validationBlock ad (source_type d) (source_snapshotId d) (job_components d)
      = (ev, Inr snap)"
  then show "jobData (queueProcessor ad d)
      = d\<lparr>job_components := sortedComponents (job_components d)\<rparr>"
    by (simp add: queueProcessor_def Let_def split: prod.splits sum.splits)
next
  assume "validationBlock ad (source_type d) (source_snapshotId d) (job_components d)
      = (ev, Inl e)"
  then show "jobData (queueProcessor ad d) = d"
    by (simp add: queueProcessor_validation_fails)
next
  show "sortedComponents [''macros'', ''bogus'', ''groups''] \<noteq> [''macros'', ''bogus'', ''groups'']"
    by (simp add: sortedComponents_def MIGRATION_ORDER_def)
qed

theorem job_components_sorted_in_place_witness:
  "job_components liveJob = [''macros'', ''bogus'', ''groups'']
   \<and> job_components (jobData (queueProcessor mockAdapters liveJob))
       = [''bogus'', ''groups'', ''macros'']"
proof -
  have v: "validationBlock mockAdapters (source_type liveJob) (source_snapshotId liveJob)
      (job_components liveJob) = ([], Inr None)"
    by (simp add: validationBlock_def liveJob_def)
  have s: "sortedComponents (job_components liveJob) = [''bogus'', ''groups'', ''macros'']"
    by (simp add: liveJob_def sortedComponents_def MIGRATION_ORDER_def)
  from job_components_sorted_in_place [THEN conjunct1, rule_format, OF v] s
  show ?thesis by (simp add: liveJob_def)
qed

section \<open>Progress\<close>

lemma length_sortedComponents: "length (sortedComponents cs) = length cs"
  by (simp add: sortedComponents_def)

text \<open>
  The components revision reports \<open>100 * i / n\<close> for \<open>i = 1, 2, ...\<close> in turn, \<open>n\<close> being the
  number of requested components, one report per component that succeeded; a job that
  completes has reported up to \<open>i = n\<close>, that is, 100.
\<close>

lemma queueProcessor_progress:
  "\<exists>j\<le>length (job_components d).
     progressReports (trace (queueProcessor ad d))
       = map (\<lambda>i. of_nat i / of_nat (length (job_components d)) * 100) [1..<Suc j]
     \<and> (\<forall>r. result (queueProcessor ad d) = Inr r \<longrightarrow> j = length (job_components d))"
proof -
  let ?n = "length (job_components d)"
  let ?d = "d\<lparr>job_components := sortedComponents (job_components d)\<rparr>"
  obtain ev0 r0 where v:
    "validationBlock ad (source_type d) (source_snapshotId d) (job_components d) = (ev0, r0)"
    by (cases "validationBlock ad (source_type d) (source_snapshotId d) (job_components d)")
  note lg = validationBlock_logs_only [OF v]
  show ?thesis
  proof (cases r0)
    case (Inl e)
    with v lg show ?thesis
      by (intro exI [of _ 0]) (simp add: queueProcessor_validation_fails progressReports_append)
  next
    case (Inr snap)
    obtain ev r where l:
      "migrateLoop (migrateComponent ad ?d snap ?n) (sortedComponents (job_components d)) 0
         = (ev, r)"
      by (cases "migrateLoop (migrateComponent ad ?d snap ?n)
            (sortedComponents (job_components d)) 0")
    from migrateLoop_progress [of "migrateComponent ad ?d snap ?n" ?n, OF _ l]
      migrateComponent_reports [of ad ?d snap ?n]
    obtain j where j: "j \<le> ?n"
      and p: "progressReports ev = map (\<lambda>i. of_nat i / of_nat ?n * 100) [Suc 0..<Suc (0 + j)]"
      and r: "(case r of Inr k' \<Rightarrow> j = ?n \<and> k' = 0 + j | Inl e \<Rightarrow> j < ?n)"
      unfolding length_sortedComponents by blast
    from v Inr l lg p r j show ?thesis
      by (intro exI [of _ j])
        (auto simp: queueProcessor_def Let_def progressReports_append split: sum.splits)
  qed
qed

text \<open>
  The ignoredItems revision divides by the length of the catalog instead: it reports
  \<open>100 * i / 14\<close>, and a job that completes has reported up to \<open>i = m\<close>, the number of
  catalog entries that are not ignored.
\<close>

lemma queueProcessor_ignoredItems_progress:
  "\<exists>j\<le>length (componentsToMigrate (case ij_ignoredItems d of None \<Rightarrow> [] | Some xs \<Rightarrow> xs)).
     progressReports (trace (queueProcessor_ignoredItems ad d))
       = map (\<lambda>i. of_nat i / 14 * 100) [1..<Suc j]
     \<and> (\<forall>r. result (queueProcessor_ignoredItems ad d) = Inr r \<longrightarrow>
          j = length (componentsToMigrate
                 (case ij_ignoredItems d of None \<Rightarrow> [] | Some xs \<Rightarrow> xs)))"
proof -
  let ?cs = "componentsToMigrate (case ij_ignoredItems d of None \<Rightarrow> [] | Some xs \<Rightarrow> xs)"
  have n: "length MIGRATION_ORDER = 14" by (simp add: MIGRATION_ORDER_def)
  obtain ev0 r0 where v:
    "validationBlock ad (ij_source_type d) (ij_source_snapshotId d) MIGRATION_ORDER = (ev0, r0)"
    by (cases "validationBlock ad (ij_source_type d) (ij_source_snapshotId d) MIGRATION_ORDER")
  note lg = validationBlock_logs_only [OF v]
  show ?thesis
  proof (cases r0)
    case (Inl e)
    with v lg show ?thesis
      by (intro exI [of _ 0])
        (simp add: queueProcessor_ignoredItems_validation_fails progressReports_append)
  next
    case (Inr snap)
    obtain ev r where l:
      "migrateLoop (migrateComponent_ignoredItems ad d snap 14) ?cs 0 = (ev, r)"
      by (cases "migrateLoop (migrateComponent_ignoredItems ad d snap 14) ?cs 0")
    from migrateLoop_progress [of "migrateComponent_ignoredItems ad d snap 14" 14, OF _ l]
      migrateComponent_ignoredItems_reports [of ad d snap 14]
    obtain j where j: "j \<le> length ?cs"
      and p: "progressReports ev = map (\<lambda>i. of_nat i / of_nat 14 * 100) [Suc 0..<Suc (0 + j)]"
      and r: "(case r of Inr k' \<Rightarrow> j = length ?cs \<and> k' = 0 + j | Inl e \<Rightarrow> j < length ?cs)"
      by blast
    from v Inr l lg p r j show ?thesis
      by (intro exI [of _ j])
        (auto simp: queueProcessor_ignoredItems_def n Let_def progressReports_append
           split: sum.splits)
  qed
qed

text \<open>
  C2 on the ignoredItems revision, at a live job that ignores skills: thirteen
  components are to be migrated, all succeed, the job completes, and the reports are
  \<open>100 * i / 14\<close>: the first is \<open>50 / 7\<close>, not \<open>100 / 13\<close>, and the last is \<open>650 / 7\<close>, not 100.
\<close>

theorem ignoredItems_progress_stops_short:
  "length (componentsToMigrate [''skills'']) = 13
   \<and> result (queueProcessor_ignoredItems mockAdapters (ignoredItemsJob [''skills'']))
       = Inr \<lparr>status = ''completed'', jobId = ''migration-3''\<rparr>
   \<and> progressReports (trace (queueProcessor_ignoredItems mockAdapters
         (ignoredItemsJob [''skills''])))
       = [50 / 7, 100 / 7, 150 / 7, 200 / 7, 250 / 7, 300 / 7, 50, 400 / 7, 450 / 7, 500 / 7,
          550 / 7, 600 / 7, 650 / 7]"
  by (simp add: evalDefs ignoredItemsJob_def)

section \<open>What the snapshot is validated against\<close>

text \<open>
  C9 on the ignoredItems revision, at a job on the mock snapshot that ignores every
  catalog entry the snapshot does not hold: the components to migrate are ticket fields
  and ticket forms, the validator accepts the snapshot for these two, and the job fails
  in validation all the same, its error naming the twelve ignored entries, because the
  validator is handed the catalog. The components revision, handed the two requested
  components, completes on the same snapshot.
\<close>

theorem ignoredItems_validates_against_catalog:
  "componentsToMigrate notInMockSnapshot = [''ticket_fields'', ''ticket_forms'']
   \<and> validateSnapshot (Some mockSnapshot1) (componentsToMigrate notInMockSnapshot) = Inr ()
   \<and> result (queueProcessor_ignoredItems mockAdapters (ignoredItemsSnapshotJob notInMockSnapshot))
       = Inl (Error (''Snapshot missing required components: custom_statuses, groups, ''
                     @ ''custom_roles, brands, dynamic_content, macros, triggers, ''
                     @ ''trigger_categories, views, webhooks, apps, skills''))
   \<and> startedSteps (trace (queueProcessor_ignoredItems mockAdapters
         (ignoredItemsSnapshotJob notInMockSnapshot))) = []
   \<and> result (queueProcessor mockAdapters snapshotJob)
       = Inr \<lparr>status = ''completed'', jobId = ''migration-1'', idMappings = []\<rparr>"
proof -
  have c: "componentsToMigrate notInMockSnapshot = [''ticket_fields'', ''ticket_forms'']"
    by (simp add: componentsToMigrate_def MIGRATION_ORDER_def notInMockSnapshot_def)
  have v: "validateSnapshot (Some mockSnapshot1) [''ticket_fields'', ''ticket_forms''] = Inr ()"
    by (simp add: validateSnapshot_def mockSnapshot1_def mockBreakdown_def getProperty_def
        objectPrototypeKeys_def)
  show ?thesis
    unfolding c by (simp add: v ignoredItemsSnapshotJob_run snapshotJob_run)
qed

section \<open>Identifier translator\<close>

lemma find_append_new:
  "find P xs = None \<Longrightarrow> P x \<Longrightarrow> find P (xs @ [x]) = Some x"
  by (induction xs) (auto split: if_splits)

lemma find_append_other:
  "\<not> P x \<Longrightarrow> find P (xs @ [x]) = find P xs"
  by (induction xs) auto

lemma resolve_NotFound_iff:
  "resolve table ty sourceId = Inl NotFound
     \<longleftrightarrow> find (\<lambda>m. entityType m = ty \<and> oldId m = sourceId) table = None"
  by (simp add: resolve_def split: option.splits)

lemma recordMapping_fresh:
  assumes "find (\<lambda>m. entityType m = ty \<and> oldId m = sourceId) table = None"
  shows "recordMapping table ty sourceId targetId md
     = (table @ [\<lparr>oldId = sourceId, newId = targetId, entityType = ty, metadata = md\<rparr>],
        Inr ())"
  using assms by (simp add: recordMapping_def)

lemma recordMapping_duplicate:
  assumes "find (\<lambda>m. entityType m = ty \<and> oldId m = sourceId) table = Some m"
  shows "recordMapping table ty sourceId targetId md = (table, Inl DuplicateMapping)"
  using assms by (simp add: recordMapping_def)

text \<open>
  C6, on the translator modelled from the spec. Resolve answers not found exactly for
  the keys that no entry of the table has; the empty table has none. Recording such a
  key succeeds, and in the table it leaves, resolve on the key returns the recorded
  target id, resolve on every other key answers as before, and a second record call on
  the key, with any target id, fails with the duplicate mapping error and leaves that
  table as it is. Recording a key that resolve already answers fails with the duplicate
  mapping error and leaves the table, and so the first mapping, as it is.
\<close>

theorem translator_record_then_resolve:
  "(resolve table ty sourceId = Inl NotFound
      \<longleftrightarrow> \<not> (\<exists>m\<in>set table. entityType m = ty \<and> oldId m = sourceId))
   \<and> resolve [] ty sourceId = Inl NotFound
   \<and> (resolve table ty sourceId = Inl NotFound \<longrightarrow>
        snd (recordMapping table ty sourceId targetId md) = Inr ()
        \<and> resolve (fst (recordMapping table ty sourceId targetId md)) ty sourceId
            = Inr targetId
        \<and> (\<forall>ty' sourceId'. (ty', sourceId') \<noteq> (ty, sourceId) \<longrightarrow>
              resolve (fst (recordMapping table ty sourceId targetId md)) ty' sourceId'
                = resolve table ty' sourceId')
        \<and> recordMapping (fst (recordMapping table ty sourceId targetId md))
              ty sourceId targetId' md'
            = (fst (recordMapping table ty sourceId targetId md), Inl DuplicateMapping))
   \<and> (\<forall>t0. resolve table ty sourceId = Inr t0 \<longrightarrow>
        recordMapping table ty sourceId targetId md = (table, Inl DuplicateMapping))"
proof (intro conjI allI impI)
  let ?P = "\<lambda>m. entityType m = ty \<and> oldId m = sourceId"
  let ?m = "\<lparr>oldId = sourceId, newId = targetId, entityType = ty, metadata = md\<rparr>"
  show "resolve table ty sourceId = Inl NotFound
      \<longleftrightarrow> \<not> (\<exists>m\<in>set table. entityType m = ty \<and> oldId m = sourceId)"
    by (auto simp: resolve_NotFound_iff find_None_iff)
  show "resolve [] ty sourceId = Inl NotFound"
    by (simp add: resolve_def)
  {
    assume "resolve table ty sourceId = Inl NotFound"
    then have fresh: "find ?P table = None" by (simp add: resolve_NotFound_iff)
    note r = recordMapping_fresh [OF fresh, of targetId md]
    have found: "find ?P (table @ [?m]) = Some ?m"
      using fresh by (rule find_append_new) simp
    show "snd (recordMapping table ty sourceId targetId md) = Inr ()"
      by (simp add: r)
    show "resolve (fst (recordMapping table ty sourceId targetId md)) ty sourceId = Inr targetId"
      by (simp add: r resolve_def found)
    show "recordMapping (fst (recordMapping table ty sourceId targetId md))
          ty sourceId targetId' md'
        = (fst (recordMapping table ty sourceId targetId md), Inl DuplicateMapping)"
      by (simp add: r recordMapping_duplicate [OF found])
    fix ty' sourceId'
    assume "(ty', sourceId') \<noteq> (ty, sourceId)"
    then have "\<not> (entityType ?m = ty' \<and> oldId ?m = sourceId')" by auto
    then have "find (\<lambda>m. entityType m = ty' \<and> oldId m = sourceId') (table @ [?m])
        = find (\<lambda>m. entityType m = ty' \<and> oldId m = sourceId') table"
      by (rule find_append_other)
    then show "resolve (fst (recordMapping table ty sourceId targetId md)) ty' sourceId'
        = resolve table ty' sourceId'"
      by (simp add: r resolve_def)
  }
  fix t0
  assume "resolve table ty sourceId = Inr t0"
  then obtain m where "find ?P table = Some m"
    by (auto simp: resolve_def split: option.splits)
  then show "recordMapping table ty sourceId targetId md = (table, Inl DuplicateMapping)"
    by (rule recordMapping_duplicate)
qed

theorem translator_record_then_resolve_witness:
  "recordMapping [] ''groups'' (IdNumber 5) (IdNumber 105) None
     = ([\<lparr>oldId = IdNumber 5, newId = IdNumber 105, entityType = ''groups'',
           metadata = None\<rparr>], Inr ())
   \<and> resolve [\<lparr>oldId = IdNumber 5, newId = IdNumber 105, entityType = ''groups'',
             metadata = None\<rparr>] ''groups'' (IdNumber 5) = Inr (IdNumber 105)
   \<and> recordMapping [\<lparr>oldId = IdNumber 5, newId = IdNumber 105, entityType = ''groups'',
             metadata = None\<rparr>] ''groups'' (IdNumber 5) (IdNumber 999) None
       = ([\<lparr>oldId = IdNumber 5, newId = IdNumber 105, entityType = ''groups'',
             metadata = None\<rparr>], Inl DuplicateMapping)
   \<and> resolve [\<lparr>oldId = IdNumber 5, newId = IdNumber 105, entityType = ''groups'',
             metadata = None\<rparr>] ''groups'' (IdNumber 6) = Inl NotFound"
proof -
  note t = translator_record_then_resolve
    [where table = "[]" and ty = "''groups''" and sourceId = "IdNumber 5"
       and targetId = "IdNumber 105" and md = None and targetId' = "IdNumber 999"
       and md' = None]
  have n: "resolve [] ''groups'' (IdNumber 5) = Inl NotFound"
    by (rule t [THEN conjunct2, THEN conjunct1])
  note after = t [THEN conjunct2, THEN conjunct2, THEN conjunct1, THEN mp, OF n]
  have r: "recordMapping [] ''groups'' (IdNumber 5) (IdNumber 105) None
      = ([\<lparr>oldId = IdNumber 5, newId = IdNumber 105, entityType = ''groups'',
            metadata = None\<rparr>], Inr ())"
    using after [THEN conjunct1] by (cases "recordMapping [] ''groups'' (IdNumber 5) (IdNumber 105) None")
      (simp add: recordMapping_def)
  have o: "(''groups'', IdNumber 6) \<noteq> (''groups'', IdNumber 5)" by simp
  from after [THEN conjunct2, THEN conjunct1]
    after [THEN conjunct2, THEN conjunct2, THEN conjunct2]
    after [THEN conjunct2, THEN conjunct2, THEN conjunct1, THEN spec, THEN spec, THEN mp, OF o]
    translator_record_then_resolve
      [where table = "[]" and ty = "''groups''" and sourceId = "IdNumber 6",
       THEN conjunct2, THEN conjunct1]
  show ?thesis unfolding r by simp
qed

end
